theory Spec2Isabelle
  imports Complex_Main
begin

section \<open>WebM to MP4 converter: the transcode pipeline of \<open>webm-converter.tsx\<close>\<close>

text \<open>
  A shallow embedding of the numeric derivations, the codec negotiation, the progress
  accounting and the control flow of \<open>runConversion\<close>.

  JavaScript numbers are modelled as exact rationals: \<open>NaN\<close>, the infinities and the
  rounding error of IEEE doubles are outside the model. A value that may be
  \<open>undefined\<close> or \<open>null\<close> is an \<open>option\<close>. \<open>Math.round\<close> rounds half up, which is
  what \<^const>\<open>round\<close> does (\<open>round x = \<lfloor>x + 1/2\<rfloor>\<close>); values produced by
  \<open>Math.round\<close> and \<open>Math.floor\<close> are kept as \<open>int\<close>.

  \<open>runConversion\<close> is an \<open>async\<close> function on a single thread. Its state is passed
  explicitly, what it does to the outside is recorded as a list of effects, and what the
  platform answers is read from an environment. Up to the launch of the two encode tasks
  the function is sequential. From there on the tasks, the progress timer and the
  function itself run interleaved between their \<open>await\<close>s; the environment holds the
  order in which the scheduler resumes them, as a list of events, and each event is one
  uninterrupted turn. The encoders' output callbacks, which hand encoded chunks to the
  container writer, are not part of the model.
\<close>

type_synonym number = rat

subsection \<open>Presets\<close>

datatype QualityId = High | Balanced | Small

datatype SpeedId = SpeedFast | SpeedStandard | SpeedQuality

datatype LatencyMode = Realtime | LatencyQuality

record QualityPreset =
  quality_id :: QualityId
  quality_label :: string
  bitrateScale :: number
  quality_hint :: string

record SpeedPreset =
  speed_id :: SpeedId
  speed_label :: string
  latencyMode :: LatencyMode
  gopSeconds :: number
  speed_hint :: string

definition qualityPresets :: "QualityPreset list" where
  "qualityPresets =
    [\<lparr>quality_id = High, quality_label = ''High'', bitrateScale = 135 / 100,
       quality_hint = ''More detail, larger file''\<rparr>,
     \<lparr>quality_id = Balanced, quality_label = ''Balanced'', bitrateScale = 1,
       quality_hint = ''Best for most clips''\<rparr>,
     \<lparr>quality_id = Small, quality_label = ''Small'', bitrateScale = 7 / 10,
       quality_hint = ''Smaller file, softer look''\<rparr>]"

definition speedPresets :: "SpeedPreset list" where
  "speedPresets =
    [\<lparr>speed_id = SpeedFast, speed_label = ''Faster'', latencyMode = Realtime,
       gopSeconds = 15 / 10, speed_hint = ''Lower latency, larger file''\<rparr>,
     \<lparr>speed_id = SpeedStandard, speed_label = ''Standard'', latencyMode = Realtime,
       gopSeconds = 25 / 10, speed_hint = ''Good balance''\<rparr>,
     \<lparr>speed_id = SpeedQuality, speed_label = ''Sharper'', latencyMode = LatencyQuality,
       gopSeconds = 4, speed_hint = ''Better compression, slower''\<rparr>]"

subsection \<open>Parameter derivation\<close>

text \<open>\<open>const evenDimension = (value) => Math.max(2, Math.floor(value / 2) * 2)\<close>\<close>

definition evenDimension :: "number \<Rightarrow> int" where
  "evenDimension v = max 2 (\<lfloor>v / 2\<rfloor> * 2)"

text \<open>The operator \<open>a || b\<close> on numbers: \<open>b\<close> when \<open>a\<close> is falsy (zero).\<close>

definition js_or :: "number \<Rightarrow> number \<Rightarrow> number" where
  "js_or a b = (if a = 0 then b else a)"

text \<open>The operator \<open>a ?? b\<close>: \<open>b\<close> when \<open>a\<close> is \<open>undefined\<close> or \<open>null\<close>.\<close>

definition nullish :: "'a option \<Rightarrow> 'a \<Rightarrow> 'a" where
  "nullish a b = (case a of None \<Rightarrow> b | Some x \<Rightarrow> x)"

text \<open>What \<open>videoTrack.getSettings()\<close> returns, and the element's intrinsic size.\<close>

record VideoSettings =
  vs_width :: "number option"
  vs_height :: "number option"
  vs_frameRate :: "number option"

record VideoElement =
  videoWidth :: number
  videoHeight :: number

record EncodeParameters =
  width :: int
  height :: int
  frameRate :: number
  baseBitrate :: int
  videoBitrate :: int
  audioBitrate :: int

definition audioBitrateOf :: "QualityPreset \<Rightarrow> int" where
  "audioBitrateOf quality =
    (if quality_id quality = High then 192000
     else if quality_id quality = Small then 96000 else 128000)"

text \<open>Lines 265 to 274 of \<open>runConversion\<close>.\<close>

definition deriveParameters :: "VideoSettings \<Rightarrow> VideoElement \<Rightarrow> QualityPreset \<Rightarrow> EncodeParameters" where
  "deriveParameters videoSettings videoElement quality =
    (let widthSource = nullish (vs_width videoSettings) (js_or (videoWidth videoElement) 0);
         heightSource = nullish (vs_height videoSettings) (js_or (videoHeight videoElement) 0);
         w = evenDimension (js_or widthSource 1280);
         h = evenDimension (js_or heightSource 720);
         fr = nullish (vs_frameRate videoSettings) 30;
         base = max 1500000 (round (of_int w * of_int h * fr * (7 / 100)));
         vb = round (of_int base * bitrateScale quality)
     in \<lparr>width = w, height = h, frameRate = fr, baseBitrate = base, videoBitrate = vb,
         audioBitrate = audioBitrateOf quality\<rparr>)"

text \<open>\<open>const keyInterval = Math.max(1, Math.round(frameRate * speed.gopSeconds))\<close>\<close>

definition keyInterval :: "number \<Rightarrow> SpeedPreset \<Rightarrow> int" where
  "keyInterval fr speed = max 1 (round (fr * gopSeconds speed))"

subsection \<open>Video codec negotiation\<close>

datatype HardwareAcceleration = PreferHardware

record VideoEncoderConfig =
  codec :: string
  cfg_width :: int
  cfg_height :: int
  cfg_bitrate :: int
  cfg_framerate :: number
  cfg_latencyMode :: "LatencyMode option"
  hardwareAcceleration :: "HardwareAcceleration option"

text \<open>The answer of \<open>VideoEncoder.isConfigSupported\<close>.\<close>

record VideoEncoderSupport =
  supported :: bool
  config :: "VideoEncoderConfig option"

definition codecCandidates :: "string list" where
  "codecCandidates = [''avc1.42E01E'', ''avc1.4D401E'', ''avc1.640028'', ''avc1.42001E'']"

definition candidatesFor :: "EncodeParameters \<Rightarrow> SpeedPreset \<Rightarrow> string \<Rightarrow> VideoEncoderConfig list" where
  "candidatesFor p speed c =
    (let base = \<lparr>codec = c, cfg_width = width p, cfg_height = height p,
                  cfg_bitrate = videoBitrate p, cfg_framerate = frameRate p,
                  cfg_latencyMode = None, hardwareAcceleration = None\<rparr>
     in [base\<lparr>cfg_latencyMode := Some (latencyMode speed),
               hardwareAcceleration := Some PreferHardware\<rparr>,
         base\<lparr>cfg_latencyMode := Some (latencyMode speed)\<rparr>,
         base\<lparr>hardwareAcceleration := Some PreferHardware\<rparr>,
         base])"

text \<open>The loop of lines 343 to 364: four pushes for each codec string, in order.\<close>

definition videoConfigCandidates :: "EncodeParameters \<Rightarrow> SpeedPreset \<Rightarrow> VideoEncoderConfig list" where
  "videoConfigCandidates p speed = concat (map (candidatesFor p speed) codecCandidates)"

text \<open>
  The loop of lines 366 to 373: the first candidate the platform supports wins, and the
  platform's own \<open>support.config\<close> is taken when there is one.
\<close>

fun chooseVideoConfig ::
  "(VideoEncoderConfig \<Rightarrow> VideoEncoderSupport) \<Rightarrow> VideoEncoderConfig list \<Rightarrow> VideoEncoderConfig option" where
  "chooseVideoConfig isConfigSupported [] = None"
| "chooseVideoConfig isConfigSupported (candidate # rest) =
    (let support = isConfigSupported candidate
     in if supported support then Some (nullish (config support) candidate)
        else chooseVideoConfig isConfigSupported rest)"

subsection \<open>Media data, settings and the effects of a run\<close>

record VideoFrame =
  frame_id :: nat
  frame_timestamp :: number

record AudioData =
  data_id :: nat
  data_timestamp :: number
  sampleRate :: number
  numberOfChannels :: number

text \<open>What \<open>audioTrack.getSettings()\<close> returns.\<close>

record AudioSettings =
  as_sampleRate :: "number option"
  channelCount :: "number option"

record AudioEncoderConfig =
  a_codec :: string
  a_sampleRate :: number
  a_numberOfChannels :: number
  a_bitrate :: int

datatype TrackClass = Video | Audio

text \<open>
  Every call of \<open>runConversion\<close> that reaches outside the function is an effect, and a
  run is described by the list of its effects in the order they happen.
  \<open>SetProgress v\<close> carries the progress state after the call. \<open>EncodeVideo\<close> and
  \<open>EncodeAudio\<close> carry the \<open>keyFrame\<close> option of the call (\<open>None\<close>: no option given).
  \<open>NewVideoEncoder\<close> and \<open>NewAudioEncoder\<close> stand for the constructor followed by
  \<open>configure\<close>. \<open>SetOutputUrl b\<close> and \<open>SetOutputSize b\<close>: \<open>False\<close> is \<open>null\<close>, \<open>True\<close>
  the value made from the output blob.
\<close>

datatype Effect =
    SetError "string option"
  | SetIsConverting bool
  | SetProgress "int option"
  | SetStatus string
  | SetOutputUrl bool
  | SetOutputSize bool
  | SetDuration number
  | CreateWorkingUrl
  | AppendVideoElement
  | Play
  | Pause
  | ClearVideoSrc
  | RemoveVideoElement
  | RevokeWorkingUrl
  | StopVideoTrack
  | StopAudioTrack
  | NewMuxer int int "(number \<times> number) option"
  | MuxerFinalize
  | NewVideoEncoder VideoEncoderConfig
  | NewAudioEncoder AudioEncoderConfig
  | EncodeVideo VideoFrame "bool option"
  | EncodeAudio AudioData "bool option"
  | CloseFrame VideoFrame
  | CloseAudio AudioData
  | WaitForBreathingRoom TrackClass
  | FlushVideoEncoder
  | CloseVideoEncoder
  | FlushAudioEncoder
  | CloseAudioEncoder
  | SetInterval
  | ClearInterval

text \<open>
  Where a run stands. \<open>Idle\<close>: \<open>runConversion\<close> returned before starting.
  \<open>AwaitingEnd\<close>: the tasks run and the function waits for \<open>ended\<close> or \<open>error\<close>
  (line 512). \<open>AwaitingTasks\<close>: \<open>Promise.all\<close> (line 523). \<open>FlushingVideo\<close>,
  \<open>FlushingAudio\<close>: the two \<open>flush\<close> calls. \<open>Completed\<close>: the \<open>try\<close> block ran to
  its end. \<open>Thrown msg\<close>: it threw.
\<close>

datatype Phase =
    Idle
  | AwaitingEnd
  | AwaitingTasks
  | FlushingVideo
  | FlushingAudio
  | Completed
  | Thrown string

record RunState =
  trace :: "Effect list"
  progress :: "int option"
  progressOffsetUs :: "number option"
  progressTimer :: bool
  videoFrameCount :: int
  bufferedAudio :: "AudioData option"
  videoDone :: bool
  audioDone :: bool
  phase :: Phase

text \<open>
  What the scheduler delivers while the function waits: a frame or a sample read by a
  task together with the \<open>encodeQueueSize\<close> the encoder shows after the submission, the
  end of a track's stream, a tick of the 200 ms progress timer with the element's
  \<open>currentTime\<close>, the element's \<open>ended\<close> and \<open>error\<close> events, the end of a \<open>flush\<close>.
\<close>

datatype SchedEvent =
    VideoFrameRead VideoFrame nat
  | VideoEnd
  | AudioDataRead AudioData nat
  | AudioEnd
  | TimerTick number
  | Ended
  | PlaybackError
  | Flushed

text \<open>
  Everything \<open>runConversion\<close> reads from the component's state and from the platform.
  \<open>videoDuration\<close> is \<open>None\<close> when \<open>videoElement.duration\<close> is not finite;
  \<open>firstAudio\<close> is \<open>None\<close> when the first read of the audio reader is \<open>done\<close> or
  has no value. The dynamic import, \<open>isConfigSupported\<close>, \<open>configure\<close>, \<open>encode\<close> and
  \<open>flush\<close> are taken not to throw.
\<close>

record Env =
  inputFile :: bool
  inputUrl :: "string option"
  duration :: "number option"
  progressBefore :: "int option"
  includeAudio :: bool
  quality :: QualityPreset
  speed :: SpeedPreset
  supportsVideoCodecs :: bool
  supportsAudioCodecs :: bool
  metadataLoaded :: bool
  videoDuration :: "number option"
  captureStream :: bool
  videoTrack :: "VideoSettings option"
  videoElement :: VideoElement
  processor :: bool
  audioTrack :: "AudioSettings option"
  playAllowed :: bool
  firstAudio :: "AudioData option"
  isConfigSupported :: "VideoEncoderConfig \<Rightarrow> VideoEncoderSupport"
  audioConfigSupported :: "AudioEncoderConfig \<Rightarrow> bool"
  schedule :: "SchedEvent list"

text \<open>The values fixed once the encoders are set up.\<close>

record RunCtx =
  durationSeconds :: "number option"
  keyInt :: int
  audioActive :: bool
  hasAudioEncoder :: bool
  hasAudioTrack :: bool

text \<open>Truthiness of a number that may be \<open>undefined\<close> or \<open>null\<close>.\<close>

definition truthy :: "number option \<Rightarrow> bool" where
  "truthy v = (case v of None \<Rightarrow> False | Some x \<Rightarrow> x \<noteq> 0)"

definition emit :: "Effect \<Rightarrow> RunState \<Rightarrow> RunState" where
  "emit e s = s\<lparr>trace := trace s @ [e]\<rparr>"

definition setProgress :: "(int option \<Rightarrow> int option) \<Rightarrow> RunState \<Rightarrow> RunState" where
  "setProgress f s = (let v = f (progress s) in (emit (SetProgress v) s)\<lparr>progress := v\<rparr>)"

subsection \<open>Progress\<close>

datatype ProgressSource = Clock number | Timestamp number

definition pctOf :: "number \<Rightarrow> number \<Rightarrow> int" where
  "pctOf timeSeconds d = min 100 (round (timeSeconds / d * 100))"

text \<open>
  \<open>updateProgress\<close>, lines 453 to 464. \<open>Clock t\<close> is a call without a timestamp, which
  reads \<open>videoElement.currentTime = t\<close>.
\<close>

definition updateProgress :: "number option \<Rightarrow> ProgressSource \<Rightarrow> RunState \<Rightarrow> RunState" where
  "updateProgress ds src s =
    (case ds of
       None \<Rightarrow> s
     | Some d \<Rightarrow>
        if d = 0 then s
        else (case src of
           Clock t \<Rightarrow>
             setProgress (\<lambda>prev. Some (max (nullish prev 0) (pctOf t d))) s
         | Timestamp timestampUs \<Rightarrow>
             (let off = nullish (progressOffsetUs s) timestampUs;
                  s1 = s\<lparr>progressOffsetUs := Some off\<rparr>;
                  timeSeconds = max 0 ((timestampUs - off) / 1000000)
              in setProgress (\<lambda>prev. Some (max (nullish prev 0) (pctOf timeSeconds d))) s1)))"

subsection \<open>The encode tasks\<close>

text \<open>One turn of the loop of \<open>videoTask\<close> on a frame, lines 480 to 487.\<close>

definition videoStep :: "RunCtx \<Rightarrow> VideoFrame \<Rightarrow> nat \<Rightarrow> RunState \<Rightarrow> RunState" where
  "videoStep ctx frame encodeQueueSize s =
    (let n = videoFrameCount s + 1;
         s1 = s\<lparr>videoFrameCount := n\<rparr>;
         s2 = emit (EncodeVideo frame (Some (n mod keyInt ctx = 0))) s1;
         s3 = updateProgress (durationSeconds ctx) (Timestamp (frame_timestamp frame)) s2;
         s4 = emit (CloseFrame frame) s3
     in if encodeQueueSize > 12 then emit (WaitForBreathingRoom Video) s4 else s4)"

text \<open>One turn of the loop of \<open>audioTask\<close> on a sample, lines 502 to 508.\<close>

definition audioStep :: "RunCtx \<Rightarrow> AudioData \<Rightarrow> nat \<Rightarrow> RunState \<Rightarrow> RunState" where
  "audioStep ctx data encodeQueueSize s =
    (let s1 = emit (EncodeAudio data None) s;
         s2 = updateProgress (durationSeconds ctx) (Timestamp (data_timestamp data)) s1;
         s3 = emit (CloseAudio data) s2
     in if encodeQueueSize > 20 then emit (WaitForBreathingRoom Audio) s3 else s3)"

text \<open>The part of \<open>audioTask\<close> that runs before its first \<open>await\<close>, lines 492 to 498.\<close>

definition audioTaskStart :: "RunCtx \<Rightarrow> RunState \<Rightarrow> RunState" where
  "audioTaskStart ctx s =
    (if \<not> audioActive ctx then s\<lparr>audioDone := True\<rparr>
     else (case bufferedAudio s of
        None \<Rightarrow> s
      | Some b \<Rightarrow>
          (let s1 = emit (EncodeAudio b None) s;
               s2 = updateProgress (durationSeconds ctx) (Timestamp (data_timestamp b)) s1;
               s3 = emit (CloseAudio b) s2
           in s3\<lparr>bufferedAudio := None\<rparr>)))"

subsection \<open>From the launch of the tasks to the end of the \<open>try\<close> block\<close>

text \<open>Lines 532 to 539.\<close>

definition finalizeRun :: "RunState \<Rightarrow> RunState" where
  "finalizeRun s =
    (let s1 = emit (SetStatus ''Finalizing MP4'') s;
         s2 = emit MuxerFinalize s1;
         s3 = emit (SetOutputSize True) s2;
         s4 = emit (SetOutputUrl True) s3;
         s5 = emit (SetStatus ''Conversion complete'') s4;
         s6 = setProgress (\<lambda>prev. Some 100) s5
     in s6\<lparr>phase := Completed\<rparr>)"

text \<open>
  \<open>await Promise.all([videoTask, audioTask])\<close> returns once both tasks have left their
  loops; the function then calls \<open>videoEncoder.flush()\<close> (line 525).
\<close>

definition afterTasks :: "RunState \<Rightarrow> RunState" where
  "afterTasks s =
    (if phase s = AwaitingTasks \<and> videoDone s \<and> audioDone s
     then (emit FlushVideoEncoder s)\<lparr>phase := FlushingVideo\<rparr>
     else s)"

text \<open>Lines 519 to 521, run when the element fires \<open>ended\<close>.\<close>

definition onEnded :: "RunCtx \<Rightarrow> RunState \<Rightarrow> RunState" where
  "onEnded ctx s =
    (let s1 = emit Pause s;
         s2 = emit StopVideoTrack s1;
         s3 = (if hasAudioTrack ctx then emit StopAudioTrack s2 else s2)
     in afterTasks (s3\<lparr>phase := AwaitingTasks\<rparr>))"

text \<open>Lines 526 to 530, run when a \<open>flush\<close> has returned.\<close>

definition onFlushed :: "RunCtx \<Rightarrow> RunState \<Rightarrow> RunState" where
  "onFlushed ctx s =
    (if phase s = FlushingVideo then
       (let s1 = emit CloseVideoEncoder s
        in if hasAudioEncoder ctx then (emit FlushAudioEncoder s1)\<lparr>phase := FlushingAudio\<rparr>
           else finalizeRun s1)
     else if phase s = FlushingAudio then finalizeRun (emit CloseAudioEncoder s)
     else s)"

text \<open>The function is between the launch of the tasks and its return.\<close>

definition running :: "RunState \<Rightarrow> bool" where
  "running s = (phase s = AwaitingEnd \<or> phase s = AwaitingTasks
                \<or> phase s = FlushingVideo \<or> phase s = FlushingAudio)"

text \<open>
  One scheduler event. An event nobody waits for changes nothing: a read for a task that
  has left its loop, \<open>ended\<close> or \<open>error\<close> once the promise of line 512 is settled, a tick
  when no timer was set.
\<close>

definition step :: "RunCtx \<Rightarrow> SchedEvent \<Rightarrow> RunState \<Rightarrow> RunState" where
  "step ctx ev s =
    (if \<not> running s then s
     else (case ev of
        VideoFrameRead frame q \<Rightarrow>
          if videoDone s then s else videoStep ctx frame q s
      | VideoEnd \<Rightarrow>
          if videoDone s then s else afterTasks (s\<lparr>videoDone := True\<rparr>)
      | AudioDataRead data q \<Rightarrow>
          if audioDone s then s else audioStep ctx data q s
      | AudioEnd \<Rightarrow>
          if audioDone s then s else afterTasks (s\<lparr>audioDone := True\<rparr>)
      | TimerTick t \<Rightarrow>
          if progressTimer s then updateProgress (durationSeconds ctx) (Clock t) s else s
      | Ended \<Rightarrow>
          if phase s = AwaitingEnd then onEnded ctx s else s
      | PlaybackError \<Rightarrow>
          if phase s = AwaitingEnd then s\<lparr>phase := Thrown ''Playback failed.''\<rparr> else s
      | Flushed \<Rightarrow> onFlushed ctx s))"

fun runEvents :: "RunCtx \<Rightarrow> SchedEvent list \<Rightarrow> RunState \<Rightarrow> RunState" where
  "runEvents ctx [] s = s"
| "runEvents ctx (ev # evs) s = runEvents ctx evs (step ctx ev s)"

subsection \<open>\<open>runConversion\<close>\<close>

text \<open>
  The audio attributes while they are being found out: \<open>includeAudioTrack\<close>,
  \<open>audioSampleRate\<close>, \<open>audioChannels\<close> of lines 291 to 295.
\<close>

record AudioProbe =
  includeAudioTrack :: bool
  audioSampleRate :: "number option"
  audioChannels :: "number option"

text \<open>
  Lines 314 to 331. \<open>audioReader\<close> is not null exactly when \<open>includeAudioTrack\<close> held at
  line 297, so the test of line 314 does not mention it here.
\<close>

definition probeAudio :: "Env \<Rightarrow> AudioProbe \<Rightarrow> RunState \<Rightarrow> AudioProbe \<times> RunState" where
  "probeAudio env pr s =
    (let (pr1, s1) =
       (if includeAudioTrack pr \<and> (\<not> truthy (audioSampleRate pr) \<or> \<not> truthy (audioChannels pr))
        then (let sa = emit (SetStatus ''Analyzing audio'') s
              in case firstAudio env of
                   None \<Rightarrow> (pr, sa)
                 | Some v \<Rightarrow>
                     (pr\<lparr>audioSampleRate := Some (sampleRate v),
                         audioChannels := Some (numberOfChannels v)\<rparr>,
                      sa\<lparr>bufferedAudio := Some v\<rparr>))
        else (pr, s))
     in if includeAudioTrack pr1 \<and> (\<not> truthy (audioSampleRate pr1) \<or> \<not> truthy (audioChannels pr1))
        then (let s2 = (case bufferedAudio s1 of
                          None \<Rightarrow> s1
                        | Some b \<Rightarrow> (emit (CloseAudio b) s1)\<lparr>bufferedAudio := None\<rparr>)
              in (pr1\<lparr>includeAudioTrack := False\<rparr>,
                  emit (SetStatus ''Audio track not detected, exporting video only'') s2))
        else (pr1, s1))"

text \<open>Lines 379 to 394: the audio encoder configuration, if audio stays enabled.\<close>

definition audioConfig :: "Env \<Rightarrow> EncodeParameters \<Rightarrow> AudioProbe \<Rightarrow> AudioEncoderConfig option" where
  "audioConfig env p pr =
    (case (audioSampleRate pr, audioChannels pr) of
       (Some sr, Some ch) \<Rightarrow>
         if includeAudioTrack pr \<and> sr \<noteq> 0 \<and> ch \<noteq> 0 then
           (let c = \<lparr>a_codec = ''mp4a.40.2'', a_sampleRate = sr, a_numberOfChannels = ch,
                     a_bitrate = audioBitrate p\<rparr>
            in if audioConfigSupported env c then Some c else None)
         else None
     | _ \<Rightarrow> None)"

text \<open>Lines 333 to 539, from \<open>Configuring encoders\<close> on.\<close>

definition encodeStage ::
  "Env \<Rightarrow> EncodeParameters \<Rightarrow> number option \<Rightarrow> AudioProbe \<Rightarrow> RunState \<Rightarrow> RunState" where
  "encodeStage env p ds pr s =
    (let s1 = emit (SetStatus ''Configuring encoders'') s
     in case chooseVideoConfig (isConfigSupported env) (videoConfigCandidates p (speed env)) of
          None \<Rightarrow> s1\<lparr>phase := Thrown ''H.264 encoding is not supported in this browser.''\<rparr>
        | Some chosenVideoConfig \<Rightarrow>
           (let wanted = includeAudioTrack pr \<and> truthy (audioSampleRate pr) \<and> truthy (audioChannels pr);
                audioEncoderConfig = audioConfig env p pr;
                audioEnabled = (audioEncoderConfig \<noteq> None);
                s2 = (if wanted \<and> \<not> audioEnabled
                      then emit (SetStatus ''AAC not supported, exporting video only'') s1 else s1);
                s3 = emit (NewMuxer (width p) (height p)
                             (map_option (\<lambda>c. (a_sampleRate c, a_numberOfChannels c)) audioEncoderConfig)) s2;
                s4 = emit (NewVideoEncoder chosenVideoConfig) s3;
                s5 = (case audioEncoderConfig of None \<Rightarrow> s4 | Some c \<Rightarrow> emit (NewAudioEncoder c) s4);
                s6 = (if truthy ds then (emit SetInterval s5)\<lparr>progressTimer := True\<rparr> else s5);
                s7 = emit (SetStatus (if audioEnabled then ''Encoding video + audio''
                                      else ''Encoding video'')) s6;
                ctx = \<lparr>durationSeconds = ds, keyInt = keyInterval (frameRate p) (speed env),
                       audioActive = audioEnabled, hasAudioEncoder = audioEnabled,
                       hasAudioTrack = (audioTrack env \<noteq> None)\<rparr>;
                s8 = audioTaskStart ctx (s7\<lparr>videoFrameCount := 0, phase := AwaitingEnd\<rparr>)
            in runEvents ctx (schedule env) s8))"

text \<open>\<open>durationSeconds\<close>, lines 237 to 239.\<close>

definition durationSecondsOf :: "Env \<Rightarrow> number option" where
  "durationSecondsOf env = (case videoDuration env of Some d \<Rightarrow> Some d | None \<Rightarrow> duration env)"

text \<open>Lines 240 to 242: the duration is stored when the component did not have one.\<close>

definition noteDuration :: "Env \<Rightarrow> RunState \<Rightarrow> RunState" where
  "noteDuration env s =
    (case durationSecondsOf env of
       Some d \<Rightarrow> if d \<noteq> 0 \<and> \<not> truthy (duration env) then emit (SetDuration d) s else s
     | None \<Rightarrow> s)"

text \<open>Lines 290 to 305: what the settings of the audio track say.\<close>

definition audioProbeOf :: "Env \<Rightarrow> AudioProbe" where
  "audioProbeOf env =
    (case audioTrack env of
       Some audioSettings \<Rightarrow>
         if includeAudio env
         then \<lparr>includeAudioTrack = True, audioSampleRate = as_sampleRate audioSettings,
               audioChannels = channelCount audioSettings\<rparr>
         else \<lparr>includeAudioTrack = False, audioSampleRate = None, audioChannels = None\<rparr>
     | None \<Rightarrow> \<lparr>includeAudioTrack = False, audioSampleRate = None, audioChannels = None\<rparr>)"

text \<open>The \<open>try\<close> block, lines 233 to 539.\<close>

definition tryBody :: "Env \<Rightarrow> RunState \<Rightarrow> RunState" where
  "tryBody env s =
    (let s1 = emit (SetStatus ''Preparing codecs'') s
     in if \<not> metadataLoaded env then s1\<lparr>phase := Thrown ''Failed to load video metadata.''\<rparr>
        else
         (let s2 = noteDuration env s1
          in if \<not> captureStream env
             then s2\<lparr>phase := Thrown ''captureStream is not available in this browser.''\<rparr>
             else (case videoTrack env of
                None \<Rightarrow> s2\<lparr>phase := Thrown ''No video track found in this file.''\<rparr>
              | Some videoSettings \<Rightarrow>
                 (let p = deriveParameters videoSettings (videoElement env) (quality env)
                  in if \<not> processor env
                     then s2\<lparr>phase := Thrown ''MediaStreamTrackProcessor is not available in this browser.''\<rparr>
                     else
                      (let s3 = emit Play (emit (SetStatus ''Starting playback'') s2)
                       in if \<not> playAllowed env
                          then s3\<lparr>phase := Thrown ''Playback was blocked. Click convert again to allow it.''\<rparr>
                          else (let (pr1, s4) = probeAudio env (audioProbeOf env) s3
                                in encodeStage env p (durationSecondsOf env) pr1 s4))))))"

text \<open>The \<open>catch\<close> block, lines 540 to 545.\<close>

definition catchBlock :: "string \<Rightarrow> RunState \<Rightarrow> RunState" where
  "catchBlock message s = emit (SetStatus ''Conversion failed'') (emit (SetError (Some message)) s)"

definition stopProgressTimer :: "RunState \<Rightarrow> RunState" where
  "stopProgressTimer s =
    (if progressTimer s then (emit ClearInterval s)\<lparr>progressTimer := False\<rparr> else s)"

text \<open>\<open>shouldRevokeWorkingUrl = !inputUrl\<close>: no URL, or the empty string.\<close>

definition shouldRevokeWorkingUrl :: "Env \<Rightarrow> bool" where
  "shouldRevokeWorkingUrl env = (case inputUrl env of None \<Rightarrow> True | Some u \<Rightarrow> u = [])"

text \<open>
  The \<open>finally\<close> block, lines 546 to 557. The element was appended to the document at
  line 200, so it has a parent.
\<close>

definition finallyBlock :: "Env \<Rightarrow> RunState \<Rightarrow> RunState" where
  "finallyBlock env s =
    (let s1 = stopProgressTimer s;
         s2 = emit Pause s1;
         s3 = emit ClearVideoSrc s2;
         s4 = emit RemoveVideoElement s3;
         s5 = (if shouldRevokeWorkingUrl env then emit RevokeWorkingUrl s4 else s4)
     in emit (SetIsConverting False) s5)"

text \<open>Lines 184 to 200: the state resets and the hidden video element.\<close>

definition startRun :: "Env \<Rightarrow> RunState \<Rightarrow> RunState" where
  "startRun env s =
    (let s1 = emit (SetError None) s;
         s2 = emit (SetIsConverting True) s1;
         s3 = setProgress (\<lambda>prev. Some 0) s2;
         s4 = emit (SetOutputUrl False) s3;
         s5 = emit (SetOutputSize False) s4;
         s6 = setProgress (\<lambda>prev. None) s5;
         s7 = (if inputUrl env = None then emit CreateWorkingUrl s6 else s6)
     in emit AppendVideoElement s7)"

definition initialState :: "Env \<Rightarrow> RunState" where
  "initialState env =
    \<lparr>trace = [], progress = progressBefore env, progressOffsetUs = None,
     progressTimer = False, videoFrameCount = 0, bufferedAudio = None,
     videoDone = False, audioDone = False, phase = Idle\<rparr>"

text \<open>
  \<open>runConversion\<close>. The result is the state when the function returns; when the schedule
  holds no event that lets it return, the result is the state in which it waits, its
  phase one of the running ones.
\<close>

definition runConversion :: "Env \<Rightarrow> RunState" where
  "runConversion env =
    (let s0 = initialState env
     in if \<not> inputFile env then s0
        else if \<not> supportsVideoCodecs env
        then emit (SetError (Some ''WebCodecs or captureStream are not available in this browser.'')) s0
        else if includeAudio env \<and> \<not> supportsAudioCodecs env
        then emit (SetError (Some ''Audio WebCodecs are not available. Disable audio or switch browser.'')) s0
        else (let s = tryBody env (startRun env s0)
              in case phase s of
                   Completed \<Rightarrow> finallyBlock env s
                 | Thrown message \<Rightarrow> finallyBlock env (catchBlock message s)
                 | _ \<Rightarrow> s))"

subsection \<open>Reading a trace\<close>

text \<open>
  The progress states a run has set, in order, and the percentages among them (a state
  of none reports nothing).
\<close>

fun progressEvent :: "Effect \<Rightarrow> int option list" where
  "progressEvent (SetProgress v) = [v]"
| "progressEvent _ = []"

definition progressEvents :: "Effect list \<Rightarrow> int option list" where
  "progressEvents tr = concat (map progressEvent tr)"

definition reported :: "Effect list \<Rightarrow> int list" where
  "reported tr = concat (map (\<lambda>v. case v of None \<Rightarrow> [] | Some x \<Rightarrow> [x]) (progressEvents tr))"

fun isProgress :: "Effect \<Rightarrow> bool" where
  "isProgress (SetProgress v) = True"
| "isProgress _ = False"

text \<open>The \<open>keyFrame\<close> options of the video submissions and of the audio submissions, in order.\<close>

fun keyFlag :: "Effect \<Rightarrow> bool option list" where
  "keyFlag (EncodeVideo frame k) = [k]"
| "keyFlag _ = []"

definition keyFlags :: "Effect list \<Rightarrow> bool option list" where
  "keyFlags tr = concat (map keyFlag tr)"

fun audioFlag :: "Effect \<Rightarrow> bool option list" where
  "audioFlag (EncodeAudio a k) = [k]"
| "audioFlag _ = []"

definition audioFlags :: "Effect list \<Rightarrow> bool option list" where
  "audioFlags tr = concat (map audioFlag tr)"

text \<open>
  The effects on the audio side: the encoder, the submissions, the releases, the yields,
  and a container made with an audio track.
\<close>

fun isAudioEffect :: "Effect \<Rightarrow> bool" where
  "isAudioEffect (NewAudioEncoder c) = True"
| "isAudioEffect (NewMuxer w h (Some a)) = True"
| "isAudioEffect (EncodeAudio a k) = True"
| "isAudioEffect (CloseAudio a) = True"
| "isAudioEffect FlushAudioEncoder = True"
| "isAudioEffect CloseAudioEncoder = True"
| "isAudioEffect (WaitForBreathingRoom Audio) = True"
| "isAudioEffect _ = False"

text \<open>The effects of the orderly end of a run, lines 520 to 533.\<close>

fun isWindDown :: "Effect \<Rightarrow> bool" where
  "isWindDown StopVideoTrack = True"
| "isWindDown StopAudioTrack = True"
| "isWindDown FlushVideoEncoder = True"
| "isWindDown CloseVideoEncoder = True"
| "isWindDown FlushAudioEncoder = True"
| "isWindDown CloseAudioEncoder = True"
| "isWindDown MuxerFinalize = True"
| "isWindDown _ = False"

text \<open>How often a task of a class has called \<open>waitForBreathingRoom\<close>.\<close>

definition yields :: "TrackClass \<Rightarrow> RunState \<Rightarrow> nat" where
  "yields c s = count_list (trace s) (WaitForBreathingRoom c)"

subsection \<open>Conditions on a run\<close>

text \<open>The run got past the three early returns of lines 174 to 182.\<close>

definition started :: "Env \<Rightarrow> bool" where
  "started env = (inputFile env \<and> supportsVideoCodecs env \<and> (\<not> includeAudio env \<or> supportsAudioCodecs env))"

text \<open>The run got as far as starting playback (line 309) without an error.\<close>

definition playbackStarted :: "Env \<Rightarrow> bool" where
  "playbackStarted env =
    (inputFile env \<and> supportsVideoCodecs env \<and> (\<not> includeAudio env \<or> supportsAudioCodecs env)
     \<and> metadataLoaded env \<and> captureStream env \<and> videoTrack env \<noteq> None \<and> processor env
     \<and> playAllowed env)"

text \<open>The state of such a run when \<open>videoElement.play()\<close> has returned.\<close>

definition afterPlay :: "Env \<Rightarrow> RunState" where
  "afterPlay env =
     emit Play (emit (SetStatus ''Starting playback'')
       (noteDuration env (emit (SetStatus ''Preparing codecs'') (startRun env (initialState env)))))"

text \<open>
  Audio is requested, the track exists, its settings lack the sample rate or the channel
  count, and the one sample that is pulled does not supply them: the read gives no
  sample, or a sample whose sample rate or channel count is falsy.
\<close>

definition audioAttributesUnknown :: "Env \<Rightarrow> bool" where
  "audioAttributesUnknown env =
    (case audioTrack env of
       None \<Rightarrow> False
     | Some a \<Rightarrow>
         includeAudio env \<and> (\<not> truthy (as_sampleRate a) \<or> \<not> truthy (channelCount a))
         \<and> (case firstAudio env of
               None \<Rightarrow> True
             | Some v \<Rightarrow> sampleRate v = 0 \<or> numberOfChannels v = 0))"

subsection \<open>Invariants of a run\<close>

text \<open>
  The reported percentages are in ascending order and bounded by the current progress,
  which is at most 100; a completed run stands at 100.
\<close>

definition progressInv :: "RunState \<Rightarrow> bool" where
  "progressInv s =
    (sorted (reported (trace s)) \<and> (\<forall>v\<in>set (reported (trace s)). v \<le> nullish (progress s) 0)
     \<and> nullish (progress s) 0 \<le> 100
     \<and> (phase s = Completed \<longrightarrow>
          progress s = Some 100 \<and> reported (trace s) \<noteq> [] \<and> last (reported (trace s)) = 100))"

text \<open>Without a duration: only the reset at the start, and 100 once the run has completed.\<close>

definition silentInv :: "RunState \<Rightarrow> bool" where
  "silentInv s =
    (progressEvents (trace s) = [Some 0, None] @ (if phase s = Completed then [Some 100] else [])
     \<and> progress s = (if phase s = Completed then Some 100 else None))"

text \<open>
  With audio off: the audio task is not in its loop, nothing is buffered, the audio
  encoder is never flushed, and the audio effects so far are \<open>X\<close>.
\<close>

definition audioOff :: "Effect list \<Rightarrow> RunState \<Rightarrow> bool" where
  "audioOff X s =
    ((audioDone s \<or> \<not> running s) \<and> bufferedAudio s = None \<and> phase s \<noteq> FlushingAudio
     \<and> filter isAudioEffect (trace s) = X)"

text \<open>
  The \<open>i\<close>-th video submission is a key frame exactly when \<open>K\<close> divides \<open>i + 1\<close>, and no
  audio submission has a \<open>keyFrame\<close> option.
\<close>

definition keyInv :: "int \<Rightarrow> RunState \<Rightarrow> bool" where
  "keyInv K s =
    (0 \<le> videoFrameCount s
     \<and> keyFlags (trace s) = map (\<lambda>i. Some (K dvd int i + 1)) [0..<nat (videoFrameCount s)]
     \<and> set (audioFlags (trace s)) \<subseteq> {None})"

text \<open>
  A run is \<open>late\<close> once the element has fired \<open>ended\<close>; before that, and on every
  path that throws, none of the effects of the orderly end has happened.
\<close>

definition late :: "RunState \<Rightarrow> bool" where
  "late s = (phase s = AwaitingTasks \<or> phase s = FlushingVideo \<or> phase s = FlushingAudio
             \<or> phase s = Completed)"

definition windInv :: "RunState \<Rightarrow> bool" where
  "windInv s = (late s \<or> filter isWindDown (trace s) = [])"

subsection \<open>Concrete runs\<close>

text \<open>
  The end-to-end case of the specification: a 10 second, 1280 by 720, 30 fps source with
  an audio track, \<open>quality = balanced\<close>, \<open>speed = standard\<close>, \<open>includeAudio = true\<close>, on a
  platform that supports every configuration. Three frames and one audio sample are
  read before the element fires \<open>ended\<close>.
\<close>

definition exampleFrame :: "nat \<Rightarrow> number \<Rightarrow> VideoFrame" where
  "exampleFrame i t = \<lparr>frame_id = i, frame_timestamp = t\<rparr>"

definition exampleSample :: "nat \<Rightarrow> number \<Rightarrow> AudioData" where
  "exampleSample i t = \<lparr>data_id = i, data_timestamp = t, sampleRate = 48000, numberOfChannels = 2\<rparr>"

definition exampleEnv :: Env where
  "exampleEnv =
    \<lparr>inputFile = True, inputUrl = Some ''blob:input'', duration = None, progressBefore = None,
     includeAudio = True, quality = qualityPresets ! 1, speed = speedPresets ! 1,
     supportsVideoCodecs = True, supportsAudioCodecs = True, metadataLoaded = True,
     videoDuration = Some 10, captureStream = True,
     videoTrack = Some \<lparr>vs_width = Some 1280, vs_height = Some 720, vs_frameRate = Some 30\<rparr>,
     videoElement = \<lparr>videoWidth = 1280, videoHeight = 720\<rparr>, processor = True,
     audioTrack = Some \<lparr>as_sampleRate = Some 48000, channelCount = Some 2\<rparr>,
     playAllowed = True, firstAudio = None,
     isConfigSupported = (\<lambda>c. \<lparr>supported = True, config = None\<rparr>),
     audioConfigSupported = (\<lambda>c. True),
     schedule = [VideoFrameRead (exampleFrame 0 1000000) 1, AudioDataRead (exampleSample 0 1000000) 1,
                 TimerTick 2, VideoFrameRead (exampleFrame 1 6000000) 13,
                 VideoFrameRead (exampleFrame 2 9000000) 2, Ended, VideoEnd, AudioEnd,
                 Flushed, Flushed]\<rparr>"

text \<open>The fixed values of the run of \<open>exampleEnv\<close>.\<close>

definition exampleCtx :: RunCtx where
  "exampleCtx = \<lparr>durationSeconds = Some 10, keyInt = 75, audioActive = True,
     hasAudioEncoder = True, hasAudioTrack = True\<rparr>"

text \<open>The same source when neither the element nor the component knows a duration.\<close>

definition unknownDurationEnv :: Env where
  "unknownDurationEnv = exampleEnv\<lparr>videoDuration := None\<rparr>"

text \<open>Playback fails after the first frame; no duration is known.\<close>

definition failingEnv :: Env where
  "failingEnv = exampleEnv\<lparr>videoDuration := None,
         schedule := [VideoFrameRead (exampleFrame 0 0) 1, PlaybackError]\<rparr>"

text \<open>The audio settings know nothing and the first sample has a sample rate of zero.\<close>

definition silentAudioEnv :: Env where
  "silentAudioEnv = exampleEnv\<lparr>audioTrack := Some \<lparr>as_sampleRate = None, channelCount = None\<rparr>,
      firstAudio := Some \<lparr>data_id = 0, data_timestamp = 0, sampleRate = 0, numberOfChannels = 2\<rparr>\<rparr>"

text \<open>The same source at 1 fps with the fast preset: a key frame every second frame.\<close>

definition slowEnv :: Env where
  "slowEnv = exampleEnv\<lparr>speed := speedPresets ! 0,
      videoTrack := Some \<lparr>vs_width = Some 1280, vs_height = Some 720, vs_frameRate = Some 1\<rparr>\<rparr>"

text \<open>A platform without any H.264 encoder.\<close>

definition unsupportedEnv :: Env where
  "unsupportedEnv = exampleEnv\<lparr>isConfigSupported := (\<lambda>c. \<lparr>supported = False, config = None\<rparr>)\<rparr>"

text \<open>
  A platform that takes only the main profile, without the hardware hint, and answers
  with its own form of the configuration.
\<close>

definition pickyEnv :: Env where
  "pickyEnv = exampleEnv\<lparr>isConfigSupported :=
     (\<lambda>c. if codec c = ''avc1.4D401E'' \<and> hardwareAcceleration c = None
          then \<lparr>supported = True, config = Some (c\<lparr>cfg_latencyMode := Some LatencyQuality\<rparr>)\<rparr>
          else \<lparr>supported = False, config = None\<rparr>)\<rparr>"

text \<open>
  No preview URL exists, so the run makes its own working URL; playback fails after one
  frame and one sample.
\<close>

definition playbackErrorEnv :: Env where
  "playbackErrorEnv = exampleEnv\<lparr>inputUrl := None,
      schedule := [VideoFrameRead (exampleFrame 0 1000000) 1,
                   AudioDataRead (exampleSample 0 1000000) 1, PlaybackError]\<rparr>"

text \<open>
  The same platform when the audio attributes come from the first sample, which is then
  held in the buffer while the video configuration is negotiated.
\<close>

definition leakEnv :: Env where
  "leakEnv = unsupportedEnv\<lparr>audioTrack := Some \<lparr>as_sampleRate = None, channelCount = None\<rparr>,
      firstAudio := Some (exampleSample 0 0)\<rparr>"

section \<open>Lemmas\<close>

subsection \<open>Parameters and negotiation\<close>



lemma evenDimension_small: "v < 2 \<Longrightarrow> evenDimension v = 2"
proof -
  assume "v < 2"
  then have "\<lfloor>v / 2\<rfloor> < 1" by (simp add: floor_less_iff)
  then show ?thesis by (simp add: evenDimension_def)
qed






lemma chooseVideoConfig_find:
  "chooseVideoConfig f cs =
     (case find (\<lambda>c. supported (f c)) cs of None \<Rightarrow> None | Some c \<Rightarrow> Some (nullish (config (f c)) c))"
  by (induction cs) (simp_all add: Let_def)

lemma chooseVideoConfig_cong:
  "(\<forall>c\<in>set cs. f c = g c) \<Longrightarrow> chooseVideoConfig f cs = chooseVideoConfig g cs"
  by (induction cs) (simp_all add: Let_def)

lemma keyInterval_pos: "1 \<le> keyInterval fr sp"
  by (simp add: keyInterval_def)

subsection \<open>The fields of the state through each function\<close>

lemma emit_fields [simp]:
  "trace (emit e s) = trace s @ [e]"
  "progress (emit e s) = progress s"
  "progressOffsetUs (emit e s) = progressOffsetUs s"
  "progressTimer (emit e s) = progressTimer s"
  "videoFrameCount (emit e s) = videoFrameCount s"
  "bufferedAudio (emit e s) = bufferedAudio s"
  "videoDone (emit e s) = videoDone s"
  "audioDone (emit e s) = audioDone s"
  "phase (emit e s) = phase s"
  by (simp_all add: emit_def)

lemma setProgress_fields [simp]:
  "trace (setProgress f s) = trace s @ [SetProgress (f (progress s))]"
  "progress (setProgress f s) = f (progress s)"
  "progressTimer (setProgress f s) = progressTimer s"
  "videoFrameCount (setProgress f s) = videoFrameCount s"
  "bufferedAudio (setProgress f s) = bufferedAudio s"
  "videoDone (setProgress f s) = videoDone s"
  "audioDone (setProgress f s) = audioDone s"
  "phase (setProgress f s) = phase s"
  by (simp_all add: setProgress_def Let_def)

lemma updateProgress_fields [simp]:
  "progressTimer (updateProgress ds src s) = progressTimer s"
  "videoFrameCount (updateProgress ds src s) = videoFrameCount s"
  "bufferedAudio (updateProgress ds src s) = bufferedAudio s"
  "videoDone (updateProgress ds src s) = videoDone s"
  "audioDone (updateProgress ds src s) = audioDone s"
  "phase (updateProgress ds src s) = phase s"
  by (simp_all add: updateProgress_def Let_def split: option.splits ProgressSource.splits)

text \<open>What \<open>updateProgress\<close> adds to the trace is at most one \<open>SetProgress\<close>.\<close>

lemma pctOf_le: "pctOf t d \<le> 100"
  by (simp add: pctOf_def)

lemma updateProgress_cases:
  "(trace (updateProgress ds src s) = trace s \<and> progress (updateProgress ds src s) = progress s)
   \<or> (\<exists>p \<le> 100. trace (updateProgress ds src s) = trace s @ [SetProgress (Some (max (nullish (progress s) 0) p))]
         \<and> progress (updateProgress ds src s) = Some (max (nullish (progress s) 0) p))"
  using pctOf_le
  by (auto simp: updateProgress_def Let_def split: option.splits ProgressSource.splits)

lemma updateProgress_unknown: "\<not> truthy ds \<Longrightarrow> updateProgress ds src s = s"
  by (simp add: updateProgress_def truthy_def split: option.splits)

lemma updateProgress_filter:
  "(\<And>v. \<not> Q (SetProgress v)) \<Longrightarrow> filter Q (trace (updateProgress ds src s)) = filter Q (trace s)"
  using updateProgress_cases [of ds src s] by auto

subsection \<open>Progress never decreases\<close>

lemma reported_append [simp]: "reported (xs @ ys) = reported xs @ reported ys"
  by (simp add: reported_def progressEvents_def)

lemma reported_Nil [simp]: "reported [] = []"
  by (simp add: reported_def progressEvents_def)

lemma reported_Cons [simp]:
  "reported (e # es) = (case e of SetProgress (Some v) \<Rightarrow> [v] | _ \<Rightarrow> []) @ reported es"
  by (cases e) (auto simp: reported_def progressEvents_def split: option.splits)

lemma progressInv_emit [simp]:
  "progressEvent e = [] \<Longrightarrow> progressInv (emit e s) = progressInv s"
  by (cases e) (simp_all add: progressInv_def)

lemma progressInv_fields [simp]:
  "progressInv (s\<lparr>progressOffsetUs := a\<rparr>) = progressInv s"
  "progressInv (s\<lparr>progressTimer := b\<rparr>) = progressInv s"
  "progressInv (s\<lparr>videoFrameCount := c\<rparr>) = progressInv s"
  "progressInv (s\<lparr>bufferedAudio := d\<rparr>) = progressInv s"
  "progressInv (s\<lparr>videoDone := e\<rparr>) = progressInv s"
  "progressInv (s\<lparr>audioDone := f\<rparr>) = progressInv s"
  by (simp_all add: progressInv_def)

lemma progressInv_phase [simp]:
  "ph \<noteq> Completed \<Longrightarrow> progressInv s \<Longrightarrow> progressInv (s\<lparr>phase := ph\<rparr>)"
  by (simp add: progressInv_def)

lemma progressInv_updateProgress [simp]:
  "progressInv s \<Longrightarrow> progressInv (updateProgress ds src s)"
  using updateProgress_cases [of ds src s]
  by (auto simp: progressInv_def sorted_append nullish_def le_max_iff_disj split: option.splits)

lemma progressInv_videoStep [simp]: "progressInv s \<Longrightarrow> progressInv (videoStep ctx fr q s)"
  by (simp add: videoStep_def Let_def)

lemma progressInv_audioStep [simp]: "progressInv s \<Longrightarrow> progressInv (audioStep ctx a q s)"
  by (simp add: audioStep_def Let_def)

lemma progressInv_audioTaskStart [simp]: "progressInv s \<Longrightarrow> progressInv (audioTaskStart ctx s)"
  by (simp add: audioTaskStart_def Let_def split: option.splits)

lemma progressInv_finalizeRun [simp]: "progressInv s \<Longrightarrow> progressInv (finalizeRun s)"
  by (auto simp: finalizeRun_def Let_def progressInv_def sorted_append nullish_def)

lemma progressInv_afterTasks [simp]: "progressInv s \<Longrightarrow> progressInv (afterTasks s)"
  by (simp add: afterTasks_def)

lemma progressInv_onEnded [simp]: "progressInv s \<Longrightarrow> progressInv (onEnded ctx s)"
  by (simp add: onEnded_def Let_def)

lemma progressInv_onFlushed [simp]: "progressInv s \<Longrightarrow> progressInv (onFlushed ctx s)"
  by (simp add: onFlushed_def Let_def)

lemma progressInv_step [simp]: "progressInv s \<Longrightarrow> progressInv (step ctx ev s)"
  by (simp add: step_def split: SchedEvent.splits)

lemma progressInv_runEvents [simp]: "progressInv s \<Longrightarrow> progressInv (runEvents ctx evs s)"
  by (induction evs arbitrary: s) simp_all

lemma progressInv_probeAudio [simp]: "progressInv s \<Longrightarrow> progressInv (snd (probeAudio env pr s))"
  by (simp add: probeAudio_def Let_def case_prod_beta split: option.splits)

lemma progressInv_encodeStage [simp]: "progressInv s \<Longrightarrow> progressInv (encodeStage env p ds pr s)"
  by (simp add: encodeStage_def Let_def split: option.splits)

lemma progressInv_noteDuration [simp]: "progressInv (noteDuration env s) = progressInv s"
  by (simp add: noteDuration_def split: option.splits)

lemma progressInv_tryBody [simp]: "progressInv s \<Longrightarrow> progressInv (tryBody env s)"
  by (simp add: tryBody_def Let_def case_prod_beta split: option.splits)

lemma progressInv_startRun [simp]: "progressInv (startRun env (initialState env))"
  by (simp add: startRun_def initialState_def Let_def progressInv_def emit_def setProgress_def
      reported_def progressEvents_def nullish_def)

lemma progressInv_catchBlock [simp]: "progressInv s \<Longrightarrow> progressInv (catchBlock m s)"
  by (simp add: catchBlock_def)

lemma progressInv_finallyBlock [simp]: "progressInv s \<Longrightarrow> progressInv (finallyBlock env s)"
  by (simp add: finallyBlock_def stopProgressTimer_def Let_def)

lemma runConversion_started:
  "started env \<Longrightarrow> runConversion env =
     (let s = tryBody env (startRun env (initialState env))
      in case phase s of Completed \<Rightarrow> finallyBlock env s
         | Thrown message \<Rightarrow> finallyBlock env (catchBlock message s) | _ \<Rightarrow> s)"
  by (auto simp: runConversion_def started_def Let_def)

lemma runConversion_not_started:
  "\<not> started env \<Longrightarrow> phase (runConversion env) = Idle \<and> progress (runConversion env) = progressBefore env
     \<and> filter isProgress (trace (runConversion env)) = []"
  by (auto simp: runConversion_def started_def Let_def initialState_def)

lemma reported_filter: "filter isProgress tr = [] \<Longrightarrow> reported tr = []"
  by (induction tr) (auto split: Effect.splits)

lemma progressInv_runConversion: "started env \<Longrightarrow> progressInv (runConversion env)"
  by (simp add: runConversion_started Let_def split: Phase.splits)

lemma phase_finallyBlock [simp]: "phase (finallyBlock env s) = phase s"
  by (simp add: finallyBlock_def stopProgressTimer_def Let_def)

lemma progress_finallyBlock [simp]: "progress (finallyBlock env s) = progress s"
  by (simp add: finallyBlock_def stopProgressTimer_def Let_def)

lemma phase_catchBlock [simp]: "phase (catchBlock m s) = phase s"
  by (simp add: catchBlock_def)

lemma videoStep_fields [simp]:
  "progressTimer (videoStep ctx fr q s) = progressTimer s"
  "videoFrameCount (videoStep ctx fr q s) = videoFrameCount s + 1"
  "bufferedAudio (videoStep ctx fr q s) = bufferedAudio s"
  "videoDone (videoStep ctx fr q s) = videoDone s"
  "audioDone (videoStep ctx fr q s) = audioDone s"
  "phase (videoStep ctx fr q s) = phase s"
  by (simp_all add: videoStep_def Let_def)

lemma audioStep_fields [simp]:
  "progressTimer (audioStep ctx a q s) = progressTimer s"
  "videoFrameCount (audioStep ctx a q s) = videoFrameCount s"
  "bufferedAudio (audioStep ctx a q s) = bufferedAudio s"
  "videoDone (audioStep ctx a q s) = videoDone s"
  "audioDone (audioStep ctx a q s) = audioDone s"
  "phase (audioStep ctx a q s) = phase s"
  by (simp_all add: audioStep_def Let_def)

subsection \<open>Unknown duration\<close>

lemma progressEvents_simps [simp]:
  "progressEvents [] = []"
  "progressEvents (e # es) = progressEvent e @ progressEvents es"
  "progressEvents (xs @ ys) = progressEvents xs @ progressEvents ys"
  by (simp_all add: progressEvents_def)

lemma silentInv_emit [simp]: "progressEvent e = [] \<Longrightarrow> silentInv (emit e s) = silentInv s"
  by (simp add: silentInv_def)

lemma silentInv_fields [simp]:
  "silentInv (s\<lparr>progressOffsetUs := a\<rparr>) = silentInv s"
  "silentInv (s\<lparr>progressTimer := b\<rparr>) = silentInv s"
  "silentInv (s\<lparr>videoFrameCount := c\<rparr>) = silentInv s"
  "silentInv (s\<lparr>bufferedAudio := d\<rparr>) = silentInv s"
  "silentInv (s\<lparr>videoDone := e\<rparr>) = silentInv s"
  "silentInv (s\<lparr>audioDone := f\<rparr>) = silentInv s"
  by (simp_all add: silentInv_def)

lemma silentInv_phase [simp]:
  "ph \<noteq> Completed \<Longrightarrow> phase s \<noteq> Completed \<Longrightarrow> silentInv (s\<lparr>phase := ph\<rparr>) = silentInv s"
  by (simp add: silentInv_def)

lemma silentInv_videoStep [simp]:
  "\<not> truthy (durationSeconds ctx) \<Longrightarrow> silentInv (videoStep ctx fr q s) = silentInv s"
  by (simp add: videoStep_def Let_def updateProgress_unknown)

lemma silentInv_audioStep [simp]:
  "\<not> truthy (durationSeconds ctx) \<Longrightarrow> silentInv (audioStep ctx a q s) = silentInv s"
  by (simp add: audioStep_def Let_def updateProgress_unknown)

lemma silentInv_audioTaskStart [simp]:
  "\<not> truthy (durationSeconds ctx) \<Longrightarrow> silentInv (audioTaskStart ctx s) = silentInv s"
  by (simp add: audioTaskStart_def Let_def updateProgress_unknown split: option.splits)

lemma silentInv_finalizeRun [simp]:
  "phase s \<noteq> Completed \<Longrightarrow> silentInv s \<Longrightarrow> silentInv (finalizeRun s)"
  by (simp add: finalizeRun_def Let_def silentInv_def)

lemma silentInv_afterTasks [simp]: "silentInv s \<Longrightarrow> silentInv (afterTasks s)"
  by (simp add: afterTasks_def)

lemma silentInv_onEnded [simp]: "phase s = AwaitingEnd \<Longrightarrow> silentInv s \<Longrightarrow> silentInv (onEnded ctx s)"
  by (simp add: onEnded_def Let_def)

lemma silentInv_onFlushed [simp]: "silentInv s \<Longrightarrow> silentInv (onFlushed ctx s)"
  by (simp add: onFlushed_def Let_def)

lemma silentInv_step [simp]:
  "\<not> truthy (durationSeconds ctx) \<Longrightarrow> silentInv s \<Longrightarrow> silentInv (step ctx ev s)"
  by (auto simp: step_def running_def updateProgress_unknown split: SchedEvent.splits)

lemma silentInv_runEvents [simp]:
  "\<not> truthy (durationSeconds ctx) \<Longrightarrow> silentInv s \<Longrightarrow> silentInv (runEvents ctx evs s)"
  by (induction evs arbitrary: s) simp_all

lemma phase_probeAudio [simp]: "phase (snd (probeAudio env pr s)) = phase s"
  by (simp add: probeAudio_def Let_def case_prod_beta split: option.splits)

lemma silentInv_probeAudio [simp]: "silentInv (snd (probeAudio env pr s)) = silentInv s"
  by (simp add: probeAudio_def Let_def case_prod_beta split: option.splits)

lemma silentInv_encodeStage [simp]:
  "\<not> truthy ds \<Longrightarrow> phase s = Idle \<Longrightarrow> silentInv s \<Longrightarrow> silentInv (encodeStage env p ds pr s)"
  by (simp add: encodeStage_def Let_def split: option.splits)

lemma phase_noteDuration [simp]: "phase (noteDuration env s) = phase s"
  by (simp add: noteDuration_def split: option.splits)

lemma silentInv_noteDuration [simp]: "silentInv (noteDuration env s) = silentInv s"
  by (simp add: noteDuration_def split: option.splits)

lemma silentInv_tryBody [simp]:
  "\<not> truthy (durationSecondsOf env) \<Longrightarrow> phase s = Idle \<Longrightarrow> silentInv s \<Longrightarrow> silentInv (tryBody env s)"
  by (simp add: tryBody_def Let_def case_prod_beta split: option.splits)

lemma silentInv_startRun [simp]: "silentInv (startRun env (initialState env))"
  by (simp add: startRun_def initialState_def Let_def silentInv_def)

lemma phase_startRun [simp]: "phase (startRun env (initialState env)) = Idle"
  by (simp add: startRun_def initialState_def Let_def)

lemma silentInv_catchBlock [simp]: "silentInv (catchBlock m s) = silentInv s"
  by (simp add: catchBlock_def)

lemma silentInv_finallyBlock [simp]: "silentInv (finallyBlock env s) = silentInv s"
  by (simp add: finallyBlock_def stopProgressTimer_def Let_def silentInv_def)

lemma silentInv_runConversion:
  "started env \<Longrightarrow> \<not> truthy (durationSecondsOf env) \<Longrightarrow> silentInv (runConversion env)"
  by (simp add: runConversion_started Let_def split: Phase.splits)

lemma updateProgress_keeps_max:
  "nullish (progress s) 0 \<le> nullish (progress (updateProgress ds src s)) 0"
  using updateProgress_cases [of ds src s] by (auto simp: nullish_def)

lemma updateProgress_known:
  "truthy ds \<Longrightarrow> \<exists>p\<le>100. progress (updateProgress ds src s) = Some (max (nullish (progress s) 0) p)"
  using pctOf_le
  by (auto simp: updateProgress_def truthy_def Let_def split: option.splits ProgressSource.splits)

subsection \<open>Audio switched off\<close>

lemma running_fields [simp]:
  "running (emit e s) = running s"
  "running (updateProgress ds src s) = running s"
  "running (videoStep ctx fr q s) = running s"
  "running (audioStep ctx a q s) = running s"
  "running (s\<lparr>progressOffsetUs := x1\<rparr>) = running s"
  "running (s\<lparr>progressTimer := x2\<rparr>) = running s"
  "running (s\<lparr>videoFrameCount := x3\<rparr>) = running s"
  "running (s\<lparr>bufferedAudio := x4\<rparr>) = running s"
  "running (s\<lparr>videoDone := x5\<rparr>) = running s"
  "running (s\<lparr>audioDone := x6\<rparr>) = running s"
  by (simp_all add: running_def)

lemma audioOff_emit [simp]: "\<not> isAudioEffect e \<Longrightarrow> audioOff X (emit e s) = audioOff X s"
  by (simp add: audioOff_def)

lemma audioOff_fields [simp]:
  "audioOff X (s\<lparr>progressOffsetUs := a\<rparr>) = audioOff X s"
  "audioOff X (s\<lparr>progressTimer := b\<rparr>) = audioOff X s"
  "audioOff X (s\<lparr>videoFrameCount := c\<rparr>) = audioOff X s"
  "audioOff X (s\<lparr>videoDone := e\<rparr>) = audioOff X s"
  by (simp_all add: audioOff_def)

lemma audioOff_updateProgress [simp]: "audioOff X (updateProgress ds src s) = audioOff X s"
  by (simp add: audioOff_def updateProgress_filter)

lemma audioOff_videoStep [simp]: "audioOff X (videoStep ctx fr q s) = audioOff X s"
  by (simp add: videoStep_def Let_def)

lemma audioOff_finalizeRun [simp]:
  "audioOff X s \<Longrightarrow> audioOff X (finalizeRun s)"
  by (auto simp: finalizeRun_def Let_def audioOff_def running_def)

lemma audioOff_afterTasks [simp]: "audioOff X s \<Longrightarrow> audioOff X (afterTasks s)"
  by (auto simp: afterTasks_def audioOff_def running_def)

lemma audioOff_onEnded [simp]:
  "audioOff X s \<Longrightarrow> running s \<Longrightarrow> audioOff X (onEnded ctx s)"
  unfolding onEnded_def Let_def
  by (rule audioOff_afterTasks) (auto simp: audioOff_def running_def)

lemma audioOff_onFlushed [simp]:
  "\<not> hasAudioEncoder ctx \<Longrightarrow> audioOff X s \<Longrightarrow> audioOff X (onFlushed ctx s)"
  by (auto simp: onFlushed_def Let_def intro!: audioOff_finalizeRun) (simp_all add: audioOff_def)

lemma audioOff_step [simp]:
  "\<not> hasAudioEncoder ctx \<Longrightarrow> audioOff X s \<Longrightarrow> audioOff X (step ctx ev s)"
  by (auto simp: step_def split: SchedEvent.splits intro!: audioOff_afterTasks)
     (simp_all add: audioOff_def running_def)

lemma audioOff_runEvents [simp]:
  "\<not> hasAudioEncoder ctx \<Longrightarrow> audioOff X s \<Longrightarrow> audioOff X (runEvents ctx evs s)"
  by (induction evs arbitrary: s) simp_all

lemma audioConfig_off [simp]: "\<not> includeAudioTrack pr \<Longrightarrow> audioConfig env p pr = None"
  by (simp add: audioConfig_def split: option.splits)

lemma audioOff_encodeStage:
  "\<not> includeAudioTrack pr \<Longrightarrow> phase s = Idle \<Longrightarrow> bufferedAudio s = None
   \<Longrightarrow> audioOff (filter isAudioEffect (trace s)) (encodeStage env p ds pr s)"
  by (auto simp: encodeStage_def Let_def audioTaskStart_def split: option.splits
      intro!: audioOff_runEvents)
    (simp_all add: audioOff_def running_def)

text \<open>What probing does when the attributes stay unknown.\<close>

lemma probeAudio_unknown:
  assumes "audioAttributesUnknown env" "bufferedAudio s = None"
  shows "\<not> includeAudioTrack (fst (probeAudio env (audioProbeOf env) s))
    \<and> bufferedAudio (snd (probeAudio env (audioProbeOf env) s)) = None
    \<and> trace (snd (probeAudio env (audioProbeOf env) s)) =
        trace s @ [SetStatus ''Analyzing audio'']
          @ (case firstAudio env of None \<Rightarrow> [] | Some v \<Rightarrow> [CloseAudio v])
          @ [SetStatus ''Audio track not detected, exporting video only'']"
  using assms
  by (auto simp: audioAttributesUnknown_def probeAudio_def audioProbeOf_def Let_def truthy_def
      split: option.splits)

subsection \<open>The trace only grows\<close>

lemma grow_updateProgress: "e \<in> set (trace s) \<Longrightarrow> e \<in> set (trace (updateProgress ds src s))"
  using updateProgress_cases [of ds src s] by auto

lemma grow_videoStep: "e \<in> set (trace s) \<Longrightarrow> e \<in> set (trace (videoStep ctx fr q s))"
  by (simp add: videoStep_def Let_def grow_updateProgress)

lemma grow_audioStep: "e \<in> set (trace s) \<Longrightarrow> e \<in> set (trace (audioStep ctx a q s))"
  by (simp add: audioStep_def Let_def grow_updateProgress)

lemma grow_audioTaskStart: "e \<in> set (trace s) \<Longrightarrow> e \<in> set (trace (audioTaskStart ctx s))"
  by (simp add: audioTaskStart_def Let_def grow_updateProgress split: option.splits)

lemma grow_finalizeRun: "e \<in> set (trace s) \<Longrightarrow> e \<in> set (trace (finalizeRun s))"
  by (simp add: finalizeRun_def Let_def)

lemma grow_afterTasks: "e \<in> set (trace s) \<Longrightarrow> e \<in> set (trace (afterTasks s))"
  by (simp add: afterTasks_def)

lemma grow_onEnded: "e \<in> set (trace s) \<Longrightarrow> e \<in> set (trace (onEnded ctx s))"
  by (simp add: onEnded_def Let_def grow_afterTasks)

lemma grow_onFlushed: "e \<in> set (trace s) \<Longrightarrow> e \<in> set (trace (onFlushed ctx s))"
  by (simp add: onFlushed_def Let_def grow_finalizeRun)

lemma grow_step: "e \<in> set (trace s) \<Longrightarrow> e \<in> set (trace (step ctx ev s))"
  by (simp add: step_def grow_videoStep grow_audioStep grow_afterTasks grow_updateProgress
      grow_onEnded grow_onFlushed split: SchedEvent.splits)

lemma grow_runEvents: "e \<in> set (trace s) \<Longrightarrow> e \<in> set (trace (runEvents ctx evs s))"
  by (induction evs arbitrary: s) (simp_all add: grow_step)

lemma grow_encodeStage:
  "e \<in> set (trace s) \<or> e = SetStatus ''Configuring encoders''
   \<Longrightarrow> e \<in> set (trace (encodeStage env p ds pr s))"
  by (auto simp: encodeStage_def Let_def split: option.splits
      intro!: grow_runEvents grow_audioTaskStart)

lemma grow_catchBlock: "e \<in> set (trace s) \<Longrightarrow> e \<in> set (trace (catchBlock m s))"
  by (simp add: catchBlock_def)

lemma grow_finallyBlock: "e \<in> set (trace s) \<Longrightarrow> e \<in> set (trace (finallyBlock env s))"
  by (simp add: finallyBlock_def stopProgressTimer_def Let_def)

subsection \<open>What a run can throw once the encoders are being configured\<close>

lemma phase_finalizeRun [simp]: "phase (finalizeRun s) = Completed"
  by (simp add: finalizeRun_def Let_def)

lemma thrown_afterTasks: "phase (afterTasks s) = Thrown m \<Longrightarrow> phase s = Thrown m"
  by (simp add: afterTasks_def split: if_splits)

lemma thrown_step:
  "phase (step ctx ev s) = Thrown m \<Longrightarrow> phase s = Thrown m \<or> m = ''Playback failed.''"
  by (auto simp: step_def running_def onEnded_def onFlushed_def Let_def afterTasks_def
      split: SchedEvent.splits if_splits)

lemma thrown_runEvents:
  "phase (runEvents ctx evs s) = Thrown m \<Longrightarrow> phase s = Thrown m \<or> m = ''Playback failed.''"
  by (induction evs arbitrary: s) (auto dest: thrown_step)

lemma phase_audioTaskStart [simp]: "phase (audioTaskStart ctx s) = phase s"
  by (simp add: audioTaskStart_def Let_def split: option.splits)

lemma thrown_encodeStage:
  "phase (encodeStage env p ds pr s) = Thrown m \<Longrightarrow>
     m = ''H.264 encoding is not supported in this browser.'' \<or> m = ''Playback failed.''"
  by (auto simp: encodeStage_def Let_def split: option.splits dest!: thrown_runEvents)

subsection \<open>A run that got as far as playback\<close>

lemma playbackStarted_started: "playbackStarted env \<Longrightarrow> started env"
  by (simp add: playbackStarted_def started_def)

lemma tryBody_playbackStarted:
  "playbackStarted env \<Longrightarrow> videoTrack env = Some vs \<Longrightarrow>
     tryBody env (startRun env (initialState env)) =
       encodeStage env (deriveParameters vs (videoElement env) (quality env)) (durationSecondsOf env)
         (fst (probeAudio env (audioProbeOf env) (afterPlay env)))
         (snd (probeAudio env (audioProbeOf env) (afterPlay env)))"
  by (simp add: playbackStarted_def tryBody_def Let_def case_prod_beta afterPlay_def)

lemma afterPlay_fields [simp]:
  "phase (afterPlay env) = Idle" "bufferedAudio (afterPlay env) = None"
  "filter isAudioEffect (trace (afterPlay env)) = []"
  by (simp_all add: afterPlay_def noteDuration_def startRun_def initialState_def Let_def
      split: option.splits)

lemma bufferedAudio_finallyBlock [simp]: "bufferedAudio (finallyBlock env s) = bufferedAudio s"
  by (simp add: finallyBlock_def stopProgressTimer_def Let_def)

lemma bufferedAudio_catchBlock [simp]: "bufferedAudio (catchBlock m s) = bufferedAudio s"
  by (simp add: catchBlock_def)

lemma audio_finallyBlock [simp]:
  "filter isAudioEffect (trace (finallyBlock env s)) = filter isAudioEffect (trace s)"
  by (simp add: finallyBlock_def stopProgressTimer_def Let_def)

lemma audio_catchBlock [simp]:
  "filter isAudioEffect (trace (catchBlock m s)) = filter isAudioEffect (trace s)"
  by (simp add: catchBlock_def)

lemma count_list_filter: "P x \<Longrightarrow> count_list (filter P xs) x = count_list xs x"
  by (induction xs) auto

subsection \<open>Key frames\<close>

lemma flags_simps [simp]:
  "keyFlags [] = []" "keyFlags (e # es) = keyFlag e @ keyFlags es"
  "keyFlags (xs @ ys) = keyFlags xs @ keyFlags ys"
  "audioFlags [] = []" "audioFlags (e # es) = audioFlag e @ audioFlags es"
  "audioFlags (xs @ ys) = audioFlags xs @ audioFlags ys"
  by (simp_all add: keyFlags_def audioFlags_def)

lemma flags_updateProgress [simp]:
  "keyFlags (trace (updateProgress ds src s)) = keyFlags (trace s)"
  "audioFlags (trace (updateProgress ds src s)) = audioFlags (trace s)"
  using updateProgress_cases [of ds src s] by auto

lemma keyInv_emit [simp]:
  "keyFlag e = [] \<Longrightarrow> audioFlag e = [] \<Longrightarrow> keyInv K (emit e s) = keyInv K s"
  by (simp add: keyInv_def)

lemma keyInv_fields [simp]:
  "keyInv K (s\<lparr>progressOffsetUs := a\<rparr>) = keyInv K s"
  "keyInv K (s\<lparr>progressTimer := b\<rparr>) = keyInv K s"
  "keyInv K (s\<lparr>bufferedAudio := d\<rparr>) = keyInv K s"
  "keyInv K (s\<lparr>videoDone := e\<rparr>) = keyInv K s"
  "keyInv K (s\<lparr>audioDone := f\<rparr>) = keyInv K s"
  "keyInv K (s\<lparr>phase := g\<rparr>) = keyInv K s"
  by (simp_all add: keyInv_def)

lemma keyInv_updateProgress [simp]: "keyInv K (updateProgress ds src s) = keyInv K s"
  by (simp add: keyInv_def)

lemma keyInv_videoStep [simp]:
  "keyInt ctx = K \<Longrightarrow> keyInv K s \<Longrightarrow> keyInv K (videoStep ctx fr q s)"
  by (auto simp: videoStep_def Let_def keyInv_def nat_add_distrib mod_eq_0_iff_dvd add.commute)

lemma keyInv_audioStep [simp]: "keyInv K s \<Longrightarrow> keyInv K (audioStep ctx a q s)"
  by (simp add: audioStep_def Let_def keyInv_def)

lemma keyInv_audioTaskStart [simp]: "keyInv K s \<Longrightarrow> keyInv K (audioTaskStart ctx s)"
  by (simp add: audioTaskStart_def Let_def keyInv_def split: option.splits)

lemma keyInv_finalizeRun [simp]: "keyInv K (finalizeRun s) = keyInv K s"
  by (simp add: finalizeRun_def Let_def keyInv_def)

lemma keyInv_afterTasks [simp]: "keyInv K (afterTasks s) = keyInv K s"
  by (simp add: afterTasks_def)

lemma keyInv_onEnded [simp]: "keyInv K (onEnded ctx s) = keyInv K s"
  by (simp add: onEnded_def Let_def)

lemma keyInv_onFlushed [simp]: "keyInv K (onFlushed ctx s) = keyInv K s"
  by (simp add: onFlushed_def Let_def)

lemma keyInv_step [simp]: "keyInt ctx = K \<Longrightarrow> keyInv K s \<Longrightarrow> keyInv K (step ctx ev s)"
  by (simp add: step_def split: SchedEvent.splits)

lemma keyInv_runEvents [simp]:
  "keyInt ctx = K \<Longrightarrow> keyInv K s \<Longrightarrow> keyInv K (runEvents ctx evs s)"
  by (induction evs arbitrary: s) simp_all

lemma keyInv_zero:
  "keyInv K s \<Longrightarrow> videoFrameCount s = 0 \<Longrightarrow> keyInv K' s"
  by (simp add: keyInv_def)

lemma keyInv_encodeStage:
  "keyInv K0 s \<Longrightarrow> videoFrameCount s = 0 \<Longrightarrow>
     keyInv (keyInterval (frameRate p) (speed env)) (encodeStage env p ds pr s)"
  by (auto simp: encodeStage_def Let_def keyInv_def split: option.splits
      intro!: keyInv_runEvents [unfolded keyInv_def] keyInv_audioTaskStart [unfolded keyInv_def])

lemma frameRate_deriveParameters [simp]:
  "frameRate (deriveParameters vs el q) = nullish (vs_frameRate vs) 30"
  by (simp add: deriveParameters_def Let_def)

lemma keyInv_noteDuration [simp]: "keyInv K (noteDuration env s) = keyInv K s"
  by (simp add: noteDuration_def split: option.splits)

lemma videoFrameCount_noteDuration [simp]: "videoFrameCount (noteDuration env s) = videoFrameCount s"
  by (simp add: noteDuration_def split: option.splits)

lemma keyInv_probeAudio [simp]: "keyInv K (snd (probeAudio env pr s)) = keyInv K s"
  by (simp add: probeAudio_def Let_def case_prod_beta split: option.splits)

lemma videoFrameCount_probeAudio [simp]:
  "videoFrameCount (snd (probeAudio env pr s)) = videoFrameCount s"
  by (simp add: probeAudio_def Let_def case_prod_beta split: option.splits)

lemma keyInv_tryBody:
  assumes "keyInv K0 s" "videoFrameCount s = 0" "videoTrack env = Some vs"
  shows "keyInv (keyInterval (nullish (vs_frameRate vs) 30) (speed env)) (tryBody env s)"
proof -
  let ?K = "keyInterval (nullish (vs_frameRate vs) 30) (speed env)"
  have z: "keyInv ?K s" using assms(1,2) by (rule keyInv_zero)
  have e: "\<And>pr s'. keyInv ?K s' \<Longrightarrow> videoFrameCount s' = 0 \<Longrightarrow>
      keyInv ?K (encodeStage env (deriveParameters vs (videoElement env) (quality env))
                  (durationSecondsOf env) pr s')"
    using keyInv_encodeStage [of ?K _ "deriveParameters vs (videoElement env) (quality env)" env]
    by simp
  show ?thesis
    using z assms(2,3) by (simp add: tryBody_def Let_def case_prod_beta e)
qed

lemma keyInv_startRun [simp]: "keyInv K (startRun env (initialState env))"
  by (simp add: startRun_def initialState_def Let_def keyInv_def setProgress_def emit_def)

lemma videoFrameCount_startRun [simp]: "videoFrameCount (startRun env (initialState env)) = 0"
  by (simp add: startRun_def initialState_def Let_def)

lemma keyInv_catchBlock [simp]: "keyInv K (catchBlock m s) = keyInv K s"
  by (simp add: catchBlock_def)

lemma keyInv_finallyBlock [simp]: "keyInv K (finallyBlock env s) = keyInv K s"
  by (simp add: finallyBlock_def stopProgressTimer_def Let_def)

lemma keyInv_runConversion:
  "videoTrack env = Some vs \<Longrightarrow>
     keyInv (keyInterval (nullish (vs_frameRate vs) 30) (speed env)) (runConversion env)"
proof (cases "started env")
  case True
  assume "videoTrack env = Some vs"
  then have "keyInv (keyInterval (nullish (vs_frameRate vs) 30) (speed env))
               (tryBody env (startRun env (initialState env)))"
    by (intro keyInv_tryBody [where ?K0.0 = 1]) simp_all
  then show ?thesis using True by (simp add: runConversion_started Let_def split: Phase.splits)
next
  case False
  then show ?thesis
    by (auto simp: runConversion_def started_def Let_def initialState_def keyInv_def)
qed

lemma keyInv_nth:
  "keyInv K s \<Longrightarrow> i < length (keyFlags (trace s)) \<Longrightarrow> keyFlags (trace s) ! i = Some (K dvd int i + 1)"
  by (simp add: keyInv_def)

subsection \<open>Backpressure\<close>

lemma yields_emit [simp]:
  "yields c (emit e s) = yields c s + (if e = WaitForBreathingRoom c then 1 else 0)"
  by (simp add: yields_def)

lemma yields_fields [simp]:
  "yields c (s\<lparr>progressOffsetUs := x1\<rparr>) = yields c s"
  "yields c (s\<lparr>progressTimer := x2\<rparr>) = yields c s"
  "yields c (s\<lparr>videoFrameCount := x3\<rparr>) = yields c s"
  "yields c (s\<lparr>bufferedAudio := x4\<rparr>) = yields c s"
  "yields c (s\<lparr>videoDone := x5\<rparr>) = yields c s"
  "yields c (s\<lparr>audioDone := x6\<rparr>) = yields c s"
  "yields c (s\<lparr>phase := x7\<rparr>) = yields c s"
  by (simp_all add: yields_def)

lemma yields_setProgress [simp]: "yields c (setProgress f s) = yields c s"
  by (simp add: yields_def)

lemma yields_updateProgress [simp]: "yields c (updateProgress ds src s) = yields c s"
  using updateProgress_cases [of ds src s] by (auto simp: yields_def)

lemma yields_videoStep:
  "yields c (videoStep ctx fr q s) = yields c s + (if c = Video \<and> 12 < q then 1 else 0)"
  by (auto simp: videoStep_def Let_def)

lemma yields_audioStep:
  "yields c (audioStep ctx a q s) = yields c s + (if c = Audio \<and> 20 < q then 1 else 0)"
  by (auto simp: audioStep_def Let_def)

lemma yields_audioTaskStart [simp]: "yields c (audioTaskStart ctx s) = yields c s"
  by (simp add: audioTaskStart_def Let_def split: option.splits)

lemma yields_finalizeRun [simp]: "yields c (finalizeRun s) = yields c s"
  by (simp add: finalizeRun_def Let_def)

lemma yields_afterTasks [simp]: "yields c (afterTasks s) = yields c s"
  by (simp add: afterTasks_def)

lemma yields_onEnded [simp]: "yields c (onEnded ctx s) = yields c s"
  by (simp add: onEnded_def Let_def)

lemma yields_onFlushed [simp]: "yields c (onFlushed ctx s) = yields c s"
  by (simp add: onFlushed_def Let_def)

lemma last_videoStep:
  "last (trace (videoStep ctx fr q s)) = (if 12 < q then WaitForBreathingRoom Video else CloseFrame fr)"
  by (simp add: videoStep_def Let_def)

lemma last_audioStep:
  "last (trace (audioStep ctx a q s)) = (if 20 < q then WaitForBreathingRoom Audio else CloseAudio a)"
  by (simp add: audioStep_def Let_def)

subsection \<open>Negotiation\<close>

lemma started_afterPlay_trace:
  "\<forall>c. NewVideoEncoder c \<notin> set (trace (afterPlay env))"
  "\<forall>w h a. NewMuxer w h a \<notin> set (trace (afterPlay env))"
  "MuxerFinalize \<notin> set (trace (afterPlay env))"
  by (auto simp: afterPlay_def noteDuration_def startRun_def initialState_def Let_def setProgress_def
      emit_def split: option.splits)

lemma trace_probeAudio:
  "set (trace (snd (probeAudio env pr s))) \<subseteq> set (trace s) \<union>
     {SetStatus ''Analyzing audio'', SetStatus ''Audio track not detected, exporting video only''}
     \<union> range CloseAudio"
  by (auto simp: probeAudio_def Let_def case_prod_beta split: option.splits if_splits)

subsection \<open>Paths that throw\<close>

lemma wind_updateProgress [simp]:
  "filter isWindDown (trace (updateProgress ds src s)) = filter isWindDown (trace s)"
  by (simp add: updateProgress_filter)

lemma wind_videoStep [simp]:
  "filter isWindDown (trace (videoStep ctx fr q s)) = filter isWindDown (trace s)"
  by (simp add: videoStep_def Let_def)

lemma wind_audioStep [simp]:
  "filter isWindDown (trace (audioStep ctx a q s)) = filter isWindDown (trace s)"
  by (simp add: audioStep_def Let_def)

lemma wind_audioTaskStart [simp]:
  "filter isWindDown (trace (audioTaskStart ctx s)) = filter isWindDown (trace s)"
  by (simp add: audioTaskStart_def Let_def split: option.splits)

lemma late_fields [simp]:
  "late (updateProgress ds src s) = late s"
  "late (videoStep ctx fr q s) = late s"
  "late (audioStep ctx a q s) = late s"
  "late (audioTaskStart ctx s) = late s"
  by (simp_all add: late_def)

lemma windInv_fields [simp]:
  "windInv (updateProgress ds src s) = windInv s"
  "windInv (videoStep ctx fr q s) = windInv s"
  "windInv (audioStep ctx a q s) = windInv s"
  "windInv (s\<lparr>videoDone := x5\<rparr>) = windInv s"
  "windInv (s\<lparr>audioDone := x6\<rparr>) = windInv s"
  by (simp_all add: windInv_def late_def)

lemma windInv_afterTasks [simp]: "windInv s \<Longrightarrow> windInv (afterTasks s)"
  by (auto simp: afterTasks_def windInv_def late_def)

lemma windInv_onEnded [simp]: "windInv (onEnded ctx s)"
  by (simp add: onEnded_def Let_def afterTasks_def windInv_def late_def)

lemma windInv_onFlushed [simp]: "windInv s \<Longrightarrow> windInv (onFlushed ctx s)"
  by (auto simp: onFlushed_def Let_def windInv_def late_def)

lemma windInv_thrown [simp]:
  "phase s = AwaitingEnd \<Longrightarrow> windInv s \<Longrightarrow> windInv (s\<lparr>phase := Thrown m\<rparr>)"
  by (simp add: windInv_def late_def)

lemma windInv_step: "windInv s \<Longrightarrow> windInv (step ctx ev s)"
  by (simp add: step_def split: SchedEvent.splits)

lemma windInv_runEvents: "windInv s \<Longrightarrow> windInv (runEvents ctx evs s)"
  by (induction evs arbitrary: s) (simp_all add: windInv_step)

lemma windInv_encodeStage:
  "filter isWindDown (trace s) = [] \<Longrightarrow> windInv (encodeStage env p ds pr s)"
  by (auto simp: encodeStage_def Let_def split: option.splits intro!: windInv_runEvents)
     (simp_all add: windInv_def)

lemma wind_probeAudio [simp]:
  "filter isWindDown (trace (snd (probeAudio env pr s))) = filter isWindDown (trace s)"
  by (simp add: probeAudio_def Let_def case_prod_beta split: option.splits)

lemma wind_noteDuration [simp]:
  "filter isWindDown (trace (noteDuration env s)) = filter isWindDown (trace s)"
  by (simp add: noteDuration_def split: option.splits)

lemma windInv_tryBody:
  "filter isWindDown (trace s) = [] \<Longrightarrow> phase s = Idle \<Longrightarrow> windInv (tryBody env s)"
  by (simp add: tryBody_def Let_def case_prod_beta windInv_encodeStage split: option.splits)
     (simp add: windInv_def)

lemma wind_startRun [simp]: "filter isWindDown (trace (startRun env (initialState env))) = []"
  by (simp add: startRun_def initialState_def Let_def)

lemma wind_catchBlock [simp]:
  "filter isWindDown (trace (catchBlock m s)) = filter isWindDown (trace s)"
  by (simp add: catchBlock_def)

lemma wind_finallyBlock [simp]:
  "filter isWindDown (trace (finallyBlock env s)) = filter isWindDown (trace s)"
  by (simp add: finallyBlock_def stopProgressTimer_def Let_def)

lemma thrown_no_wind_down:
  assumes "phase (runConversion env) = Thrown m"
  shows "filter isWindDown (trace (runConversion env)) = []"
proof -
  have st: "started env"
    using assms runConversion_not_started [of env] by auto
  let ?t = "tryBody env (startRun env (initialState env))"
  have w: "windInv ?t" by (rule windInv_tryBody) simp_all
  have ph: "phase ?t = Thrown m"
    using assms st by (auto simp: runConversion_started Let_def split: Phase.splits)
  then have "filter isWindDown (trace ?t) = []" using w by (simp add: windInv_def late_def)
  then show ?thesis using st ph by (simp add: runConversion_started Let_def)
qed

lemma filter_empty_notin: "filter P xs = [] \<Longrightarrow> P x \<Longrightarrow> x \<notin> set xs"
  by (auto simp: filter_empty_conv)

text \<open>
  When negotiation fails while a sample is buffered, the sample is still in the buffer
  when the function returns, and it has not been closed.
\<close>

lemma buffered_sample_kept_on_negotiation_failure:
  "phase (runConversion leakEnv) = Thrown ''H.264 encoding is not supported in this browser.''
   \<and> bufferedAudio (runConversion leakEnv) = Some (exampleSample 0 0)
   \<and> CloseAudio (exampleSample 0 0) \<notin> set (trace (runConversion leakEnv))"
  by code_simp

section \<open>The claims\<close>

text \<open>
  C1. Over any run the percentages that are reported never decrease and never exceed
  100, and a run that succeeds ends with the progress at exactly 100. An update never
  lowers the value it finds, and with a known duration it sets the maximum of that
  value (none counting as 0) and the new percentage.
\<close>

theorem progress_monotonic:
  "sorted (reported (trace (runConversion env)))
   \<and> (\<forall>v\<in>set (reported (trace (runConversion env))). v \<le> 100)
   \<and> (phase (runConversion env) = Completed \<longrightarrow>
        progress (runConversion env) = Some 100 \<and> last (reported (trace (runConversion env))) = 100)
   \<and> nullish (progress s) 0 \<le> nullish (progress (updateProgress ds src s)) 0
   \<and> (truthy ds \<longrightarrow>
        (\<exists>p\<le>100. progress (updateProgress ds src s) = Some (max (nullish (progress s) 0) p)))"
proof (cases "started env")
  case True
  then have "progressInv (runConversion env)" by (rule progressInv_runConversion)
  then show ?thesis
    using updateProgress_keeps_max [of s ds src] updateProgress_known [of ds src s]
    by (auto simp: progressInv_def)
next
  case False
  then show ?thesis
    using runConversion_not_started [of env] updateProgress_keeps_max [of s ds src]
      updateProgress_known [of ds src s]
    by (simp add: reported_filter)
qed

text \<open>The run of \<open>exampleEnv\<close>: a known duration, success, and the percentages in order.\<close>

theorem progress_monotonic_witness:
  "truthy (durationSecondsOf exampleEnv) \<and> phase (runConversion exampleEnv) = Completed
   \<and> reported (trace (runConversion exampleEnv)) = [0, 0, 0, 20, 50, 80, 100]
   \<and> progress (runConversion exampleEnv) = Some 100"
proof -
  have d: "truthy (durationSecondsOf exampleEnv)" by code_simp
  have c: "phase (runConversion exampleEnv) = Completed" by code_simp
  have r: "reported (trace (runConversion exampleEnv)) = [0, 0, 0, 20, 50, 80, 100]" by code_simp
  from progress_monotonic [of exampleEnv] c have "progress (runConversion exampleEnv) = Some 100"
    by blast
  with d c r show ?thesis by simp
qed






text \<open>
  C4. The keyframe interval is \<open>max 1 (round (frameRate * gopSeconds))\<close>, hence at
  least 1. In any run the \<open>i\<close>-th video submission (counted from 0) carries the option
  \<open>keyFrame\<close>, which is true exactly when its 1-based count \<open>i + 1\<close> is a multiple of the
  interval derived from the track's frame rate (30 when the settings have none) and the
  speed preset. Every audio submission is made without a \<open>keyFrame\<close> option.
\<close>

theorem keyframe_cadence:
  "keyInterval fr sp = max 1 (round (fr * gopSeconds sp)) \<and> 1 \<le> keyInterval fr sp
   \<and> (\<forall>vs i. videoTrack env = Some vs \<and> i < length (keyFlags (trace (runConversion env))) \<longrightarrow>
         keyFlags (trace (runConversion env)) ! i =
           Some (keyInterval (nullish (vs_frameRate vs) 30) (speed env) dvd int i + 1))
   \<and> set (audioFlags (trace (runConversion env))) \<subseteq> {None}"
proof -
  have a: "set (audioFlags (trace (runConversion env))) \<subseteq> {None}"
  proof (cases "videoTrack env")
    case None
    then show ?thesis
      by (auto simp: runConversion_def Let_def initialState_def tryBody_def startRun_def
          finallyBlock_def catchBlock_def stopProgressTimer_def noteDuration_def
          split: option.splits)
  next
    case (Some vs)
    then show ?thesis using keyInv_runConversion [of env vs] by (simp add: keyInv_def)
  qed
  show ?thesis
    using a keyInv_runConversion [of env] by (auto simp: keyInterval_def intro: keyInv_nth)
qed

text \<open>
  At 30 fps with the standard preset the interval is 75. At 1 fps with the fast preset
  it is 2, and of three frames the second is the key frame.
\<close>

theorem keyframe_cadence_witness:
  "keyInterval 30 (speedPresets ! 1) = 75
   \<and> keyInterval 1 (speed slowEnv) = 2
   \<and> keyFlags (trace (runConversion slowEnv)) = [Some False, Some True, Some False]
   \<and> audioFlags (trace (runConversion slowEnv)) = [None]"
proof -
  have v: "videoTrack slowEnv = Some \<lparr>vs_width = Some 1280, vs_height = Some 720, vs_frameRate = Some 1\<rparr>"
    by (simp add: slowEnv_def exampleEnv_def)
  have k: "keyInterval 1 (speed slowEnv) = 2" "keyInterval 30 (speedPresets ! 1) = 75" by code_simp+
  have l: "length (keyFlags (trace (runConversion slowEnv))) = 3" by code_simp
  have au: "audioFlags (trace (runConversion slowEnv)) = [None]" by code_simp
  note t = keyframe_cadence [of 1 "speed slowEnv" slowEnv, THEN conjunct2, THEN conjunct2, THEN conjunct1, rule_format, OF conjI, OF v]
  have "keyFlags (trace (runConversion slowEnv)) ! 0 = Some False"
       "keyFlags (trace (runConversion slowEnv)) ! 1 = Some True"
       "keyFlags (trace (runConversion slowEnv)) ! 2 = Some False"
    using t [of 0] t [of 1] t [of 2] by (simp_all add: l k nullish_def)
  then have "keyFlags (trace (runConversion slowEnv)) = [Some False, Some True, Some False]"
    using l by (auto simp: list_eq_iff_nth_eq numeral_3_eq_3 numeral_2_eq_2 less_Suc_eq)
  with k au show ?thesis by simp
qed

text \<open>
  C5. Negotiation returns the first candidate, in list order, that the platform reports
  as supported, as the platform's own \<open>support.config\<close> when it gives one and as the
  candidate otherwise; it returns none exactly when no candidate is supported. The
  result depends only on the list and on the platform's answers for its candidates. In a
  run that got as far as playback, none is fatal: the run throws
  \<open>H.264 encoding is not supported in this browser.\<close>, reports it, and makes no
  encoder and no output.
\<close>

theorem negotiation_first_supported:
  "chooseVideoConfig f cs =
     (case find (\<lambda>c. supported (f c)) cs of
        None \<Rightarrow> None
      | Some c \<Rightarrow> Some (nullish (config (f c)) c))
   \<and> ((\<forall>c\<in>set cs. f c = g c) \<longrightarrow> chooseVideoConfig f cs = chooseVideoConfig g cs)
   \<and> (\<forall>vs. playbackStarted env \<and> videoTrack env = Some vs
         \<and> chooseVideoConfig (isConfigSupported env)
              (videoConfigCandidates (deriveParameters vs (videoElement env) (quality env)) (speed env)) = None
        \<longrightarrow> phase (runConversion env) = Thrown ''H.264 encoding is not supported in this browser.''
          \<and> SetError (Some ''H.264 encoding is not supported in this browser.'') \<in> set (trace (runConversion env))
          \<and> (\<forall>c. NewVideoEncoder c \<notin> set (trace (runConversion env)))
          \<and> MuxerFinalize \<notin> set (trace (runConversion env)))"
proof -
  have fatal: "phase (runConversion env) = Thrown ''H.264 encoding is not supported in this browser.''
          \<and> SetError (Some ''H.264 encoding is not supported in this browser.'') \<in> set (trace (runConversion env))
          \<and> (\<forall>c. NewVideoEncoder c \<notin> set (trace (runConversion env)))
          \<and> MuxerFinalize \<notin> set (trace (runConversion env))"
    if p: "playbackStarted env" and v: "videoTrack env = Some vs"
      and n: "chooseVideoConfig (isConfigSupported env)
              (videoConfigCandidates (deriveParameters vs (videoElement env) (quality env)) (speed env)) = None"
    for vs
  proof -
    let ?pp = "probeAudio env (audioProbeOf env) (afterPlay env)"
    let ?m = "''H.264 encoding is not supported in this browser.''"
    have t: "tryBody env (startRun env (initialState env)) =
        (emit (SetStatus ''Configuring encoders'') (snd ?pp))\<lparr>phase := Thrown ?m\<rparr>"
      using p v n by (simp add: tryBody_playbackStarted encodeStage_def Let_def)
    have r: "runConversion env = finallyBlock env (catchBlock ?m
          ((emit (SetStatus ''Configuring encoders'') (snd ?pp))\<lparr>phase := Thrown ?m\<rparr>))"
      using p by (simp add: runConversion_started playbackStarted_started t Let_def)
    have tr: "set (trace (runConversion env)) \<subseteq> set (trace (snd ?pp)) \<union>
        {SetStatus ''Configuring encoders'', SetError (Some ?m), SetStatus ''Conversion failed'',
         ClearInterval, Pause, ClearVideoSrc, RemoveVideoElement, RevokeWorkingUrl,
         SetIsConverting False}"
      unfolding r by (auto simp: finallyBlock_def catchBlock_def stopProgressTimer_def Let_def)
    have "\<forall>c. NewVideoEncoder c \<notin> set (trace (runConversion env))"
      using tr trace_probeAudio [of env "audioProbeOf env" "afterPlay env"] started_afterPlay_trace(1) [of env]
      by fastforce
    moreover have "MuxerFinalize \<notin> set (trace (runConversion env))"
      using tr trace_probeAudio [of env "audioProbeOf env" "afterPlay env"] started_afterPlay_trace(3) [of env]
      by fastforce
    moreover have "phase (runConversion env) = Thrown ?m" by (simp add: r)
    moreover have "SetError (Some ?m) \<in> set (trace (runConversion env))"
      unfolding r by (simp add: finallyBlock_def catchBlock_def stopProgressTimer_def Let_def)
    ultimately show ?thesis by blast
  qed
  show ?thesis
    using chooseVideoConfig_find [of f cs] chooseVideoConfig_cong [of cs f g] fatal by blast
qed

text \<open>
  A platform that supports nothing fails the run; a platform that takes only the main
  profile without the hardware hint, and normalises the latency mode, gets its
  normalised form of the sixth candidate.
\<close>

theorem negotiation_first_supported_witness:
  "playbackStarted unsupportedEnv
   \<and> phase (runConversion unsupportedEnv) = Thrown ''H.264 encoding is not supported in this browser.''
   \<and> MuxerFinalize \<notin> set (trace (runConversion unsupportedEnv))
   \<and> chooseVideoConfig (isConfigSupported pickyEnv)
        (videoConfigCandidates (deriveParameters \<lparr>vs_width = Some 1280, vs_height = Some 720, vs_frameRate = Some 30\<rparr>
           (videoElement pickyEnv) (quality pickyEnv)) (speed pickyEnv))
      = Some \<lparr>codec = ''avc1.4D401E'', cfg_width = 1280, cfg_height = 720, cfg_bitrate = 1935360,
              cfg_framerate = 30, cfg_latencyMode = Some LatencyQuality, hardwareAcceleration = None\<rparr>"
proof -
  let ?vs = "\<lparr>vs_width = Some 1280, vs_height = Some 720, vs_frameRate = Some 30\<rparr>"
  have a: "playbackStarted unsupportedEnv" by code_simp
  have v: "videoTrack unsupportedEnv = Some ?vs" by code_simp
  have n: "chooseVideoConfig (isConfigSupported unsupportedEnv)
      (videoConfigCandidates (deriveParameters ?vs (videoElement unsupportedEnv) (quality unsupportedEnv))
         (speed unsupportedEnv)) = None"
    by code_simp
  note t = negotiation_first_supported [of "isConfigSupported pickyEnv"
      "videoConfigCandidates (deriveParameters ?vs (videoElement pickyEnv) (quality pickyEnv)) (speed pickyEnv)"
      "isConfigSupported pickyEnv" unsupportedEnv]
  have f: "find (\<lambda>c. supported (isConfigSupported pickyEnv c))
      (videoConfigCandidates (deriveParameters ?vs (videoElement pickyEnv) (quality pickyEnv)) (speed pickyEnv))
      = Some \<lparr>codec = ''avc1.4D401E'', cfg_width = 1280, cfg_height = 720, cfg_bitrate = 1935360,
              cfg_framerate = 30, cfg_latencyMode = Some Realtime, hardwareAcceleration = None\<rparr>"
    by code_simp
  have c: "nullish (config (isConfigSupported pickyEnv
       \<lparr>codec = ''avc1.4D401E'', cfg_width = 1280, cfg_height = 720, cfg_bitrate = 1935360,
              cfg_framerate = 30, cfg_latencyMode = Some Realtime, hardwareAcceleration = None\<rparr>))
       \<lparr>codec = ''avc1.4D401E'', cfg_width = 1280, cfg_height = 720, cfg_bitrate = 1935360,
              cfg_framerate = 30, cfg_latencyMode = Some Realtime, hardwareAcceleration = None\<rparr>
     = \<lparr>codec = ''avc1.4D401E'', cfg_width = 1280, cfg_height = 720, cfg_bitrate = 1935360,
              cfg_framerate = 30, cfg_latencyMode = Some LatencyQuality, hardwareAcceleration = None\<rparr>"
    by code_simp
  from t a v n f c show ?thesis by simp
qed

text \<open>
  C6, as amended. When no duration is known, a run that starts sets the progress to 0 and
  at once to none (lines 186 and 187), and no update reports anything: the progress
  stays none while the run lasts. A run that fails ends with the progress none; a run
  that succeeds sets it to 100 at its end (line 539).
\<close>

theorem unknown_duration_progress:
  "started env \<and> \<not> truthy (durationSecondsOf env) \<longrightarrow>
     progressEvents (trace (runConversion env)) =
       [Some 0, None] @ (if phase (runConversion env) = Completed then [Some 100] else [])
     \<and> progress (runConversion env) = (if phase (runConversion env) = Completed then Some 100 else None)"
  using silentInv_runConversion [of env] by (simp add: silentInv_def)

text \<open>A run without a duration that fails: the progress ends as none.\<close>

theorem unknown_duration_progress_witness:
  "started failingEnv
   \<and> \<not> truthy (durationSecondsOf failingEnv)
   \<and> phase (runConversion failingEnv) = Thrown ''Playback failed.''
   \<and> progressEvents (trace (runConversion failingEnv)) = [Some 0, None]
   \<and> progress (runConversion failingEnv) = None"
proof -
  let ?e = "failingEnv"
  have a: "started ?e" by code_simp
  have b: "\<not> truthy (durationSecondsOf ?e)" by code_simp
  have c: "phase (runConversion ?e) = Thrown ''Playback failed.''" by code_simp
  from unknown_duration_progress [of ?e] a b c
  have "progressEvents (trace (runConversion ?e)) = [Some 0, None] \<and> progress (runConversion ?e) = None"
    by simp
  with a b c show ?thesis by simp
qed

text \<open>
  The claim as stated fails on a successful run: with no duration known the progress is
  100 when the run returns.
\<close>

theorem unknown_duration_counterexample:
  "\<not> truthy (durationSecondsOf unknownDurationEnv)
   \<and> progress (runConversion unknownDurationEnv) = Some 100"
  by code_simp

text \<open>
  C7. Take a run that got as far as playback, with audio requested, an audio track
  whose settings lack the sample rate or the channel count, and a first read that
  leaves them unknown (no sample, or a sample whose sample rate or channel count is
  zero). Then audio is off for the run: no audio encoder is made, the container has no
  audio track, no sample is encoded, and the only audio effect of the whole run is the
  release of the buffered sample, which happens exactly once (when there is one) and
  leaves the buffer empty. The run does not fail for it: it reports
  \<open>Audio track not detected, exporting video only\<close>, goes on to configure the encoders,
  and can only fail for want of an H.264 encoder or by a playback error.
\<close>

theorem audio_attributes_unknown:
  assumes "playbackStarted env" and "audioAttributesUnknown env"
  shows "filter isAudioEffect (trace (runConversion env)) =
           (case firstAudio env of None \<Rightarrow> [] | Some v \<Rightarrow> [CloseAudio v])
       \<and> (\<forall>v. firstAudio env = Some v \<longrightarrow> count_list (trace (runConversion env)) (CloseAudio v) = 1)
       \<and> bufferedAudio (runConversion env) = None
       \<and> SetStatus ''Audio track not detected, exporting video only'' \<in> set (trace (runConversion env))
       \<and> SetStatus ''Configuring encoders'' \<in> set (trace (runConversion env))
       \<and> (\<forall>m. phase (runConversion env) = Thrown m \<longrightarrow>
             m = ''H.264 encoding is not supported in this browser.'' \<or> m = ''Playback failed.'')"
proof -
  obtain vs where vs: "videoTrack env = Some vs"
    using assms(1) by (auto simp: playbackStarted_def)
  let ?pp = "probeAudio env (audioProbeOf env) (afterPlay env)"
  let ?t = "encodeStage env (deriveParameters vs (videoElement env) (quality env))
              (durationSecondsOf env) (fst ?pp) (snd ?pp)"
  let ?X = "case firstAudio env of None \<Rightarrow> [] | Some v \<Rightarrow> [CloseAudio v]"
  let ?r = "runConversion env"
  have pr: "\<not> includeAudioTrack (fst ?pp)" "bufferedAudio (snd ?pp) = None"
    and tr: "trace (snd ?pp) = trace (afterPlay env) @ [SetStatus ''Analyzing audio'']
          @ ?X @ [SetStatus ''Audio track not detected, exporting video only'']"
    using probeAudio_unknown [OF assms(2), of "afterPlay env"] by simp_all
  have fX: "filter isAudioEffect (trace (snd ?pp)) = ?X"
    by (simp add: tr split: option.splits)
  have off: "audioOff ?X ?t"
    using audioOff_encodeStage [OF pr(1) _ pr(2), of env] by (simp add: fX)
  have run: "?r = (case phase ?t of Completed \<Rightarrow> finallyBlock env ?t
         | Thrown message \<Rightarrow> finallyBlock env (catchBlock message ?t) | _ \<Rightarrow> ?t)"
    using assms(1) vs
    by (simp add: runConversion_started playbackStarted_started tryBody_playbackStarted Let_def)
  have a: "filter isAudioEffect (trace ?r) = ?X" and b: "bufferedAudio ?r = None"
    using off by (auto simp: run audioOff_def split: Phase.splits)
  have st: "SetStatus ''Audio track not detected, exporting video only'' \<in> set (trace ?t)"
       "SetStatus ''Configuring encoders'' \<in> set (trace ?t)"
    by (rule grow_encodeStage, simp add: tr)+
  have c: "SetStatus ''Audio track not detected, exporting video only'' \<in> set (trace ?r)"
       "SetStatus ''Configuring encoders'' \<in> set (trace ?r)"
    using st by (auto simp: run grow_finallyBlock grow_catchBlock split: Phase.splits)
  have d: "\<forall>m. phase ?r = Thrown m \<longrightarrow>
             m = ''H.264 encoding is not supported in this browser.'' \<or> m = ''Playback failed.''"
    using thrown_encodeStage [of env _ _ "fst ?pp" "snd ?pp"]
    by (auto simp: run split: Phase.splits)
  have e: "\<forall>v. firstAudio env = Some v \<longrightarrow> count_list (trace ?r) (CloseAudio v) = 1"
  proof (intro allI impI)
    fix v assume v: "firstAudio env = Some v"
    have "count_list (trace ?r) (CloseAudio v) = count_list (filter isAudioEffect (trace ?r)) (CloseAudio v)"
      by (simp add: count_list_filter)
    then show "count_list (trace ?r) (CloseAudio v) = 1" by (simp add: a v)
  qed
  from a b c d e show ?thesis by blast
qed

text \<open>
  A run of this kind that completes: the settings know nothing and the first sample has
  a sample rate of zero.
\<close>

theorem audio_attributes_unknown_witness:
  "playbackStarted silentAudioEnv \<and> audioAttributesUnknown silentAudioEnv
   \<and> phase (runConversion silentAudioEnv) = Completed
   \<and> filter isAudioEffect (trace (runConversion silentAudioEnv)) =
       [CloseAudio \<lparr>data_id = 0, data_timestamp = 0, sampleRate = 0, numberOfChannels = 2\<rparr>]
   \<and> count_list (trace (runConversion silentAudioEnv))
        (CloseAudio \<lparr>data_id = 0, data_timestamp = 0, sampleRate = 0, numberOfChannels = 2\<rparr>) = 1"
proof -
  have a: "playbackStarted silentAudioEnv" by code_simp
  have b: "audioAttributesUnknown silentAudioEnv" by code_simp
  have c: "phase (runConversion silentAudioEnv) = Completed" by code_simp
  have f: "firstAudio silentAudioEnv =
      Some \<lparr>data_id = 0, data_timestamp = 0, sampleRate = 0, numberOfChannels = 2\<rparr>"
    by (simp add: silentAudioEnv_def)
  from audio_attributes_unknown [OF a b] f c show ?thesis using a b by simp
qed

text \<open>
  C8. What the code does on a fatal path is less than the claim says. Whenever the
  \<open>try\<close> block throws, in any run, the media tracks are never stopped and no encoder
  is ever closed: \<open>videoTrack.stop()\<close>, \<open>audioTrack?.stop()\<close> and the two
  \<open>close()\<close> calls stand only on the path of success (lines 520 to 530), and the
  \<open>finally\<close> block does not repeat them. The container writer is indeed never
  finalized on such a path.
\<close>

theorem fatal_path_skips_release:
  "phase (runConversion env) = Thrown m \<longrightarrow>
     StopVideoTrack \<notin> set (trace (runConversion env))
     \<and> StopAudioTrack \<notin> set (trace (runConversion env))
     \<and> CloseVideoEncoder \<notin> set (trace (runConversion env))
     \<and> CloseAudioEncoder \<notin> set (trace (runConversion env))
     \<and> MuxerFinalize \<notin> set (trace (runConversion env))"
proof
  assume "phase (runConversion env) = Thrown m"
  then have "filter isWindDown (trace (runConversion env)) = []" by (rule thrown_no_wind_down)
  then have "\<And>e. isWindDown e \<Longrightarrow> e \<notin> set (trace (runConversion env))"
    by (rule filter_empty_notin)
  then show "StopVideoTrack \<notin> set (trace (runConversion env))
     \<and> StopAudioTrack \<notin> set (trace (runConversion env))
     \<and> CloseVideoEncoder \<notin> set (trace (runConversion env))
     \<and> CloseAudioEncoder \<notin> set (trace (runConversion env))
     \<and> MuxerFinalize \<notin> set (trace (runConversion env))"
    by simp
qed

text \<open>
  A playback error after one frame and one sample: both encoders exist, the run ends with
  the \<open>catch\<close> and \<open>finally\<close> effects only (the working URL, made by this run, is
  revoked), and neither track is stopped nor either encoder closed.
\<close>

theorem fatal_path_skips_release_witness:
  "phase (runConversion playbackErrorEnv) = Thrown ''Playback failed.''
   \<and> audioTrack playbackErrorEnv \<noteq> None
   \<and> (\<exists>c. NewVideoEncoder c \<in> set (trace (runConversion playbackErrorEnv)))
   \<and> (\<exists>c. NewAudioEncoder c \<in> set (trace (runConversion playbackErrorEnv)))
   \<and> StopVideoTrack \<notin> set (trace (runConversion playbackErrorEnv))
   \<and> StopAudioTrack \<notin> set (trace (runConversion playbackErrorEnv))
   \<and> CloseVideoEncoder \<notin> set (trace (runConversion playbackErrorEnv))
   \<and> CloseAudioEncoder \<notin> set (trace (runConversion playbackErrorEnv))
   \<and> MuxerFinalize \<notin> set (trace (runConversion playbackErrorEnv))
   \<and> drop (length (trace (runConversion playbackErrorEnv)) - 8) (trace (runConversion playbackErrorEnv)) =
       [SetError (Some ''Playback failed.''), SetStatus ''Conversion failed'', ClearInterval, Pause,
        ClearVideoSrc, RemoveVideoElement, RevokeWorkingUrl, SetIsConverting False]"
proof -
  have p: "phase (runConversion playbackErrorEnv) = Thrown ''Playback failed.''" by code_simp
  have a: "audioTrack playbackErrorEnv \<noteq> None" by code_simp
  have e: "NewVideoEncoder \<lparr>codec = ''avc1.42E01E'', cfg_width = 1280, cfg_height = 720,
        cfg_bitrate = 1935360, cfg_framerate = 30, cfg_latencyMode = Some Realtime,
        hardwareAcceleration = Some PreferHardware\<rparr> \<in> set (trace (runConversion playbackErrorEnv))"
    "NewAudioEncoder \<lparr>a_codec = ''mp4a.40.2'', a_sampleRate = 48000, a_numberOfChannels = 2,
        a_bitrate = 128000\<rparr> \<in> set (trace (runConversion playbackErrorEnv))"
    by code_simp+
  have d: "drop (length (trace (runConversion playbackErrorEnv)) - 8) (trace (runConversion playbackErrorEnv)) =
       [SetError (Some ''Playback failed.''), SetStatus ''Conversion failed'', ClearInterval, Pause,
        ClearVideoSrc, RemoveVideoElement, RevokeWorkingUrl, SetIsConverting False]"
    by code_simp
  from fatal_path_skips_release [of playbackErrorEnv "''Playback failed.''"] p a e d
  show ?thesis by blast
qed

text \<open>
  C9. One turn of the video loop ends with exactly one yield when the encoder's queue
  holds more than 12 units after the submission, and with none otherwise; one turn of
  the audio loop does the same with 20. The yield comes last in the turn, after the
  submission, the progress update and the release. Over a scheduler event the number of
  yields of a class grows by one exactly when the event is a read by the live task of
  that class with the queue above its threshold; no other event yields, and neither does
  the start of the audio task, where the buffered sample is the first unit the new
  encoder gets.
\<close>

theorem backpressure_yield:
  "yields c (videoStep ctx fr q s) = yields c s + (if c = Video \<and> 12 < q then 1 else 0)
   \<and> (last (trace (videoStep ctx fr q s)) = WaitForBreathingRoom Video) = (12 < q)
   \<and> yields c (audioStep ctx a q s) = yields c s + (if c = Audio \<and> 20 < q then 1 else 0)
   \<and> (last (trace (audioStep ctx a q s)) = WaitForBreathingRoom Audio) = (20 < q)
   \<and> yields c (audioTaskStart ctx s) = yields c s
   \<and> yields c (step ctx ev s) = yields c s +
       (case ev of
          VideoFrameRead fr' q' \<Rightarrow> if running s \<and> \<not> videoDone s \<and> c = Video \<and> 12 < q' then 1 else 0
        | AudioDataRead a' q' \<Rightarrow> if running s \<and> \<not> audioDone s \<and> c = Audio \<and> 20 < q' then 1 else 0
        | _ \<Rightarrow> 0)"
  by (simp add: yields_videoStep yields_audioStep last_videoStep last_audioStep step_def
      split: SchedEvent.splits)

text \<open>
  Thirteen pending video units yield and twelve do not; twenty-one pending audio units
  yield and twenty do not.
\<close>

theorem backpressure_yield_witness:
  "yields Video (videoStep exampleCtx (exampleFrame 0 0) 13 (initialState exampleEnv)) = 1
   \<and> yields Video (videoStep exampleCtx (exampleFrame 0 0) 12 (initialState exampleEnv)) = 0
   \<and> yields Audio (audioStep exampleCtx (exampleSample 0 0) 21 (initialState exampleEnv)) = 1
   \<and> yields Audio (audioStep exampleCtx (exampleSample 0 0) 20 (initialState exampleEnv)) = 0"
proof -
  have z: "yields c (initialState exampleEnv) = 0" for c
    by (simp add: yields_def initialState_def)
  show ?thesis
    using backpressure_yield [where c = Video and ctx = exampleCtx and fr = "exampleFrame 0 0" and q = 13
          and s = "initialState exampleEnv"]
      backpressure_yield [where c = Video and ctx = exampleCtx and fr = "exampleFrame 0 0" and q = 12
          and s = "initialState exampleEnv"]
      backpressure_yield [where c = Audio and ctx = exampleCtx and a = "exampleSample 0 0" and q = 21
          and s = "initialState exampleEnv"]
      backpressure_yield [where c = Audio and ctx = exampleCtx and a = "exampleSample 0 0" and q = 20
          and s = "initialState exampleEnv"]
    by (simp add: z)
qed

text \<open>
  C10. The candidate list has exactly 16 configurations: for each codec string in the
  order avc1.42E01E, avc1.4D401E, avc1.640028, avc1.42001E the four variants hardware
  preference with latency mode, latency mode only, hardware preference only, neither;
  all of them with the derived width, height, bitrate and frame rate.
\<close>

theorem candidate_order:
  "map (\<lambda>c. (codec c, cfg_latencyMode c, hardwareAcceleration c)) (videoConfigCandidates p sp) =
     [(''avc1.42E01E'', Some (latencyMode sp), Some PreferHardware),
      (''avc1.42E01E'', Some (latencyMode sp), None),
      (''avc1.42E01E'', None, Some PreferHardware),
      (''avc1.42E01E'', None, None),
      (''avc1.4D401E'', Some (latencyMode sp), Some PreferHardware),
      (''avc1.4D401E'', Some (latencyMode sp), None),
      (''avc1.4D401E'', None, Some PreferHardware),
      (''avc1.4D401E'', None, None),
      (''avc1.640028'', Some (latencyMode sp), Some PreferHardware),
      (''avc1.640028'', Some (latencyMode sp), None),
      (''avc1.640028'', None, Some PreferHardware),
      (''avc1.640028'', None, None),
      (''avc1.42001E'', Some (latencyMode sp), Some PreferHardware),
      (''avc1.42001E'', Some (latencyMode sp), None),
      (''avc1.42001E'', None, Some PreferHardware),
      (''avc1.42001E'', None, None)]
   \<and> length (videoConfigCandidates p sp) = 16
   \<and> map (\<lambda>c. (cfg_width c, cfg_height c, cfg_bitrate c, cfg_framerate c)) (videoConfigCandidates p sp) =
       replicate 16 (width p, height p, videoBitrate p, frameRate p)"
  by (simp add: videoConfigCandidates_def codecCandidates_def candidatesFor_def Let_def numeral_eq_Suc)

end
